theory Spec2Isabelle
  imports Main "HOL-Library.AList" "HOL-Library.Sublist"
begin

section \<open>Strings and scanning\<close>

text \<open>
  A Go string is a sequence of bytes; it is modelled as \<^typ>\<open>string\<close>, one
  \<^typ>\<open>char\<close> per byte. \<open>bytes\<close> is the model of \<^verbatim>\<open>[]byte\<close>.
\<close>

type_synonym bytes = string

text \<open>
  \<^verbatim>\<open>strings.Split(s, ".")\<close> with a one-byte separator: the pieces between the
  separators, one piece more than there are separators (so the empty string gives one empty
  piece).
\<close>

fun strings_Split :: "string \<Rightarrow> char \<Rightarrow> string list" where
  "strings_Split [] sep = [[]]"
| "strings_Split (c # cs) sep =
     (if c = sep then [] # strings_Split cs sep
      else (case strings_Split cs sep of
              [] \<Rightarrow> [[c]]
            | p # ps \<Rightarrow> (c # p) # ps))"

text \<open>
  \<^verbatim>\<open>fmt.Sscanf(s, "%d", &n)\<close>. The scanner skips leading white space (the runes
  of the table \<^verbatim>\<open>space\<close> of package fmt, here in their UTF-8 encoding), fails
  on a newline, accepts one optional sign, needs at least one decimal digit, reads the longest
  run of digits and converts it with \<^verbatim>\<open>strconv.ParseInt(tok, 10, 64)\<close>, which
  fails when the value does not fit 64 bits (\<^verbatim>\<open>int\<close> is taken to be 64 bits wide, as
  on the platforms the manifest names). Input after the digits is left unread. On failure
  the target variable is not assigned: the result is \<open>None\<close>.
\<close>

definition space_encodings :: "string list" where
  "space_encodings =
     [[CHR 0x09], [CHR 0x0B], [CHR 0x0C], [CHR 0x0D], [CHR 0x20],
      [CHR 0xC2, CHR 0x85], [CHR 0xC2, CHR 0xA0],
      [CHR 0xE1, CHR 0x9A, CHR 0x80],
      [CHR 0xE2, CHR 0x80, CHR 0x80], [CHR 0xE2, CHR 0x80, CHR 0x81],
      [CHR 0xE2, CHR 0x80, CHR 0x82], [CHR 0xE2, CHR 0x80, CHR 0x83],
      [CHR 0xE2, CHR 0x80, CHR 0x84], [CHR 0xE2, CHR 0x80, CHR 0x85],
      [CHR 0xE2, CHR 0x80, CHR 0x86], [CHR 0xE2, CHR 0x80, CHR 0x87],
      [CHR 0xE2, CHR 0x80, CHR 0x88], [CHR 0xE2, CHR 0x80, CHR 0x89],
      [CHR 0xE2, CHR 0x80, CHR 0x8A],
      [CHR 0xE2, CHR 0x80, CHR 0xA8], [CHR 0xE2, CHR 0x80, CHR 0xA9],
      [CHR 0xE2, CHR 0x80, CHR 0xAF],
      [CHR 0xE2, CHR 0x81, CHR 0x9F],
      [CHR 0xE3, CHR 0x80, CHR 0x80]]"

definition has_prefix :: "string \<Rightarrow> string \<Rightarrow> bool" where
  "has_prefix s p \<longleftrightarrow> take (length p) s = p"

definition space_len :: "string \<Rightarrow> nat" where
  "space_len s =
     (case filter (has_prefix s) space_encodings of
        [] \<Rightarrow> 0
      | p # _ \<Rightarrow> length p)"

function SkipSpace :: "string \<Rightarrow> string option" where
  "SkipSpace s =
     (if s = [] then Some []
      else if hd s = CHR 0x0A then None
      else if space_len s = 0 then Some s
      else SkipSpace (drop (space_len s) s))"
  by pat_completeness auto
termination
  by (relation "measure length") auto

definition is_digit :: "char \<Rightarrow> bool" where
  "is_digit c \<longleftrightarrow> (48::nat) \<le> of_char c \<and> (of_char c :: nat) \<le> 57"

definition digit_val :: "char \<Rightarrow> int" where
  "digit_val c = int (of_char c) - 48"

definition digits_val :: "string \<Rightarrow> int" where
  "digits_val ds = foldl (\<lambda>acc c. acc * 10 + digit_val c) 0 ds"

definition Sscanf_d :: "string \<Rightarrow> int option" where
  "Sscanf_d s =
     (case SkipSpace s of
        None \<Rightarrow> None
      | Some r \<Rightarrow>
          (let neg = (r \<noteq> [] \<and> hd r = CHR ''-'');
               r1 = (if r \<noteq> [] \<and> (hd r = CHR ''+'' \<or> hd r = CHR ''-'') then tl r else r);
               ds = takeWhile is_digit r1;
               n = (if neg then - digits_val ds else digits_val ds)
           in if ds = [] then None
              else if - (2 ^ 63) \<le> n \<and> n < 2 ^ 63 then Some n
              else None))"

section \<open>Version comparison\<close>

text \<open>
  \<^verbatim>\<open>compareVersions\<close>: both strings are split on the dot; for \<open>i = 0, 1, 2\<close>
  the variables \<^verbatim>\<open>numA\<close> and \<^verbatim>\<open>numB\<close> start at zero, are scanned from the
  \<open>i\<close>-th piece when there is one, and the first difference decides.
\<close>

definition scan_part :: "string list \<Rightarrow> nat \<Rightarrow> int" where
  "scan_part parts i =
     (if i < length parts
      then (case Sscanf_d (parts ! i) of Some n \<Rightarrow> n | None \<Rightarrow> 0)
      else 0)"

function compareVersions_loop :: "string list \<Rightarrow> string list \<Rightarrow> nat \<Rightarrow> int" where
  "compareVersions_loop partsA partsB i =
     (if i < 3 then
        (let numA = scan_part partsA i;
             numB = scan_part partsB i
         in if numA > numB then 1
            else if numA < numB then - 1
            else compareVersions_loop partsA partsB (i + 1))
      else 0)"
  by pat_completeness auto
termination
  by (relation "measure (\<lambda>(a, b, i). 3 - i)") auto

definition compareVersions :: "string \<Rightarrow> string \<Rightarrow> int" where
  "compareVersions a b =
     compareVersions_loop (strings_Split a CHR ''.'') (strings_Split b CHR ''.'') 0"

section \<open>Paths\<close>

text \<open>
  Package \<^verbatim>\<open>path/filepath\<close> on a system whose separator is the slash.
  \<^verbatim>\<open>Clean\<close> works on the text alone: empty and \<open>.\<close> elements go, an inner
  \<open>..\<close> goes together with the element before it, a \<open>..\<close> at the start of a rooted
  path goes, and the empty result is \<open>.\<close>.
\<close>

fun strings_Join :: "string list \<Rightarrow> string \<Rightarrow> string" where
  "strings_Join [] sep = []"
| "strings_Join [x] sep = x"
| "strings_Join (x # y # ys) sep = x @ sep @ strings_Join (y # ys) sep"

definition clean_step :: "bool \<Rightarrow> string list \<Rightarrow> string \<Rightarrow> string list" where
  "clean_step rooted st c =
     (if c = [] \<or> c = ''.'' then st
      else if c = ''..'' then
        (case st of
           [] \<Rightarrow> (if rooted then [] else [''..''])
         | t # ts \<Rightarrow> (if t = ''..'' then ''..'' # st else ts))
      else c # st)"

definition clean_elems :: "bool \<Rightarrow> string \<Rightarrow> string list" where
  "clean_elems rooted s = rev (foldl (clean_step rooted) [] (strings_Split s CHR ''/''))"

definition filepath_Clean :: "string \<Rightarrow> string" where
  "filepath_Clean s =
     (let rooted = (s \<noteq> [] \<and> hd s = CHR ''/'');
          body = strings_Join (clean_elems rooted s) ''/''
      in if rooted then CHR ''/'' # body
         else if body = [] then ''.''
         else body)"

fun filepath_Join :: "string list \<Rightarrow> string" where
  "filepath_Join [] = []"
| "filepath_Join (e # es) =
     (if e \<noteq> [] then filepath_Clean (strings_Join (e # es) ''/'')
      else filepath_Join es)"

definition filepath_Dir :: "string \<Rightarrow> string" where
  "filepath_Dir s = filepath_Clean (rev (dropWhile (\<lambda>c. c \<noteq> CHR ''/'') (rev s)))"

definition strings_HasPrefix :: "string \<Rightarrow> string \<Rightarrow> bool" where
  "strings_HasPrefix s p \<longleftrightarrow> length p \<le> length s \<and> take (length p) s = p"

definition strings_HasSuffix :: "string \<Rightarrow> string \<Rightarrow> bool" where
  "strings_HasSuffix s p \<longleftrightarrow>
     length p \<le> length s \<and> drop (length s - length p) s = p"

section \<open>The file system\<close>

text \<open>
  The operating system is not part of the repository. Its file tree is modelled as a value:
  a node is a regular file with its bytes or a directory with its named children. A path
  given to the system is resolved from the root directory by its elements, the working
  directory being the root. Permission bits, symbolic links and device failures are left
  out: an operation fails exactly when the shape of the tree makes it fail.
\<close>

datatype node = File bytes | Dir "(string \<times> node) list"

type_synonym path = "string list"

datatype os_error = ENOENT | ENOTDIR | EISDIR | ENOTEMPTY | EINVAL | EEXIST

definition resolve :: "string \<Rightarrow> path" where
  "resolve s = clean_elems True s"

fun lookup :: "node \<Rightarrow> path \<Rightarrow> os_error + node" where
  "lookup n [] = Inr n"
| "lookup (File b) (c # cs) = Inl ENOTDIR"
| "lookup (Dir es) (c # cs) =
     (case map_of es c of
        None \<Rightarrow> Inl ENOENT
      | Some m \<Rightarrow> lookup m cs)"

text \<open>\<open>store r p n\<close> puts the node \<open>n\<close> at \<open>p\<close>; the parent of \<open>p\<close> has to be a directory.\<close>

fun store :: "node \<Rightarrow> path \<Rightarrow> node \<Rightarrow> os_error + node" where
  "store r [] n = Inr n"
| "store (File b) (c # cs) n = Inl ENOTDIR"
| "store (Dir es) (c # cs) n =
     (case (if cs = [] then Inr n
            else (case map_of es c of
                    None \<Rightarrow> Inl ENOENT
                  | Some m \<Rightarrow> store m cs n)) of
        Inl e \<Rightarrow> Inl e
      | Inr m' \<Rightarrow> Inr (Dir (AList.update c m' es)))"

fun remove_all :: "node \<Rightarrow> path \<Rightarrow> node" where
  "remove_all r [] = r"
| "remove_all (File b) (c # cs) = File b"
| "remove_all (Dir es) (c # cs) =
     (if cs = [] then Dir (AList.delete c es)
      else (case map_of es c of
              None \<Rightarrow> Dir es
            | Some m \<Rightarrow> Dir (AList.update c (remove_all m cs) es)))"

fun mkdir_all :: "node \<Rightarrow> path \<Rightarrow> os_error + node" where
  "mkdir_all (File b) p = Inl ENOTDIR"
| "mkdir_all (Dir es) [] = Inr (Dir es)"
| "mkdir_all (Dir es) (c # cs) =
     (case mkdir_all (case map_of es c of None \<Rightarrow> Dir [] | Some m \<Rightarrow> m) cs of
        Inl e \<Rightarrow> Inl e
      | Inr m' \<Rightarrow> Inr (Dir (AList.update c m' es)))"

text \<open>Two paths are unrelated when neither lies at or below the other.\<close>

definition unrelated :: "path \<Rightarrow> path \<Rightarrow> bool" where
  "unrelated p q \<longleftrightarrow> \<not> prefix p q \<and> \<not> prefix q p"

definition is_dir :: "os_error + node \<Rightarrow> bool" where
  "is_dir r = (case r of Inr (Dir es) \<Rightarrow> True | _ \<Rightarrow> False)"

text \<open>
  The calls of package \<^verbatim>\<open>os\<close> that the program makes. \<^verbatim>\<open>os.RemoveAll\<close> and
  \<^verbatim>\<open>os.Remove\<close> return the tree only, since every caller drops their error.
  \<^verbatim>\<open>os.OpenFile\<close> with \<^verbatim>\<open>O_WRONLY|O_CREATE|O_TRUNC\<close> followed by the write
  of the whole content is \<open>os_WriteFile\<close> as well.
\<close>

definition os_Stat :: "node \<Rightarrow> string \<Rightarrow> os_error + node" where
  "os_Stat root name = lookup root (resolve name)"

definition os_IsNotExist :: "os_error + node \<Rightarrow> bool" where
  "os_IsNotExist r \<longleftrightarrow> r = Inl ENOENT"

definition os_ReadFile :: "node \<Rightarrow> string \<Rightarrow> os_error + bytes" where
  "os_ReadFile root name =
     (case lookup root (resolve name) of
        Inl e \<Rightarrow> Inl e
      | Inr (Dir es) \<Rightarrow> Inl EISDIR
      | Inr (File b) \<Rightarrow> Inr b)"

definition os_WriteFile :: "node \<Rightarrow> string \<Rightarrow> bytes \<Rightarrow> os_error + node" where
  "os_WriteFile root name b =
     (if is_dir (lookup root (resolve name)) then Inl EISDIR
      else store root (resolve name) (File b))"

definition os_MkdirAll :: "node \<Rightarrow> string \<Rightarrow> os_error + node" where
  "os_MkdirAll root name = mkdir_all root (resolve name)"

definition os_RemoveAll :: "node \<Rightarrow> string \<Rightarrow> node" where
  "os_RemoveAll root name = remove_all root (resolve name)"

definition os_Remove :: "node \<Rightarrow> string \<Rightarrow> node" where
  "os_Remove root name =
     (case lookup root (resolve name) of
        Inr (File b) \<Rightarrow> remove_all root (resolve name)
      | Inr (Dir []) \<Rightarrow> remove_all root (resolve name)
      | _ \<Rightarrow> root)"

definition os_Rename :: "node \<Rightarrow> string \<Rightarrow> string \<Rightarrow> os_error + node" where
  "os_Rename root old new =
     (let src = resolve old; dst = resolve new in
      case lookup root src of
        Inl e \<Rightarrow> Inl e
      | Inr n \<Rightarrow>
          (case (n, lookup root dst) of
             (File b, Inr (Dir es)) \<Rightarrow> Inl EISDIR
           | (Dir es, Inr (File b)) \<Rightarrow> Inl ENOTDIR
           | (Dir es, Inr (Dir (x # xs))) \<Rightarrow> Inl ENOTEMPTY
           | _ \<Rightarrow>
               (if src = dst then Inr root
                else if take (length src) dst = src then Inl EINVAL
                else store (remove_all root src) dst n)))"

section \<open>The environment\<close>

text \<open>
  What the program reads from outside: the file tree, the wall clock (\<open>0\<close> is the zero
  \<^verbatim>\<open>time.Time\<close>; the clock is advanced by the environment between calls), the
  random source (a stream of bytes with a read position, or broken) and the network.
\<close>

record http_response =
  StatusCode :: nat
  Body :: "bytes list"
  BodyErr :: bool

record world =
  fs :: node
  clock :: nat
  rand_src :: "nat \<Rightarrow> char"
  rand_pos :: nat
  rand_broken :: bool
  http :: "string \<Rightarrow> http_response option"
  temp_dir :: string
  temp_rand :: string

definition rand_Read :: "world \<Rightarrow> nat \<Rightarrow> bytes option \<times> world" where
  "rand_Read w n =
     (if rand_broken w then (None, w)
      else (Some (map (rand_src w) [rand_pos w ..< rand_pos w + n]),
            w\<lparr>rand_pos := rand_pos w + n\<rparr>))"

definition time_Now :: "world \<Rightarrow> nat" where
  "time_Now w = clock w"

definition IsZero :: "nat \<Rightarrow> bool" where
  "IsZero t \<longleftrightarrow> t = 0"

section \<open>The vault\<close>

definition magicNumber :: nat where "magicNumber = 0x4343474F"
definition vaultVersion :: nat where "vaultVersion = 1"
definition argonTime :: nat where "argonTime = 3"
definition argonMemory :: nat where "argonMemory = 64 * 1024"
definition argonThreads :: nat where "argonThreads = 4"
definition argonKeyLen :: nat where "argonKeyLen = 32"
definition saltSize :: nat where "saltSize = 32"
definition nonceSize :: nat where "nonceSize = 12"

datatype vault_error =
    ErrVaultLocked
  | ErrWrongPassword
  | ErrInvalidVault
  | ErrVaultNotFound
  | ErrEntryNotFound
  | ErrVaultCorrupted
  | ErrUnsupportedVersion nat
  | ErrGenerateSalt
  | ErrCreateCipher
  | ErrCreateGCM
  | ErrCreateDirectory os_error
  | ErrSaveVault vault_error
  | ErrReadVault os_error
  | ErrSerialize
  | ErrGenerateNonce
  | ErrWriteVault os_error
  | ErrFinalizeVault os_error
  | NilDereference

text \<open>
  \<^verbatim>\<open>Entry\<close>. The credential type is a string type in the source; times are clock
  readings; \<^verbatim>\<open>Data\<close> is the raw payload, empty when nil.
\<close>

record Entry =
  ID :: string
  Type :: string
  Provider :: string
  Data :: bytes
  CreatedAt :: nat
  UpdatedAt :: nat
  ExpiresAt :: "nat option"
  Metadata :: "(string \<times> string) list"

text \<open>
  \<^verbatim>\<open>vaultData\<close>; its fields carry the prefix \<open>vd_\<close> to keep them apart from
  those of \<^verbatim>\<open>Entry\<close>. The Go map from identifiers to entries is an association
  list with one pair per key: assignment is \<^const>\<open>AList.update\<close>, lookup is
  \<^const>\<open>map_of\<close>, deletion is \<^const>\<open>AList.delete\<close>. Go leaves the iteration order of
  a map open; the list order stands for one such order. A nil map, which the decoder can
  leave behind for a file without entries, is not told apart from the empty map.
\<close>

record vaultData =
  vd_Version :: int
  vd_Entries :: "(string \<times> Entry) list"
  vd_CreatedAt :: nat
  vd_UpdatedAt :: nat

text \<open>
  \<^verbatim>\<open>Vault\<close> without its mutex. \<open>gcm\<close> is the AEAD object, which is determined by
  the key it was made from; \<open>None\<close> is nil, for \<open>gcm\<close> and for \<open>data\<close>.
\<close>

record Vault =
  path :: string
  salt :: bytes
  key :: bytes
  gcm :: "bytes option"
  data :: "vaultData option"
  unlocked :: bool

text \<open>
  The libraries the vault and the updater call are parameters of the model:
  Argon2id, AES-GCM sealing and opening under a key, the JSON encoding of
  \<^verbatim>\<open>vaultData\<close> (decoding returns whether it succeeded and what it left in the
  target), the JSON decoding of the manifest (from the bytes of
  the response body and whether reading it ended in an error) and of the version file,
  SHA-256, the zip reader and the RFC 3339 time format. A \<open>zip_File\<close> is an archive entry:
  its name, whether its mode makes it a directory, its content, and whether opening it or
  copying its content fails.
\<close>

record Download =
  URL :: string
  SHA256 :: string
  Size :: int

record Manifest =
  Version :: string
  ReleaseDate :: string
  Changelog :: "string list"
  Downloads :: "(string \<times> Download) list"
  MinVersion :: string

record zip_File =
  Name :: string
  IsDir :: bool
  Content :: bytes
  OpenErr :: bool
  CopyErr :: bool

record lib =
  argon2_IDKey :: "string \<Rightarrow> bytes \<Rightarrow> nat \<Rightarrow> nat \<Rightarrow> nat \<Rightarrow> nat \<Rightarrow> bytes"
  gcm_Seal :: "bytes \<Rightarrow> bytes \<Rightarrow> bytes \<Rightarrow> bytes"
  gcm_Open :: "bytes \<Rightarrow> bytes \<Rightarrow> bytes \<Rightarrow> bytes option"
  json_Marshal :: "vaultData option \<Rightarrow> bytes option"
  json_Unmarshal :: "bytes \<Rightarrow> bool \<times> vaultData"
  json_Decode_Manifest :: "bytes \<Rightarrow> bool \<Rightarrow> Manifest option"
  json_Unmarshal_version :: "bytes \<Rightarrow> string option"
  sha256_Sum :: "bytes \<Rightarrow> bytes"
  zip_OpenReader :: "bytes \<Rightarrow> zip_File list option"
  time_Format_RFC3339 :: "nat \<Rightarrow> string"

text \<open>
  \<^verbatim>\<open>aes.NewCipher\<close> accepts keys of 16, 24 and 32 bytes;
  \<^verbatim>\<open>cipher.NewGCM\<close> accepts every AES block cipher.
\<close>

definition aes_NewCipher :: "bytes \<Rightarrow> bytes option" where
  "aes_NewCipher k = (if length k \<in> {16, 24, 32} then Some k else None)"

definition cipher_NewGCM :: "bytes \<Rightarrow> bytes option" where
  "cipher_NewGCM block = Some block"

text \<open>Big-endian numbers: \<^verbatim>\<open>binary.BigEndian\<close>.\<close>

definition be_nat :: "bytes \<Rightarrow> nat" where
  "be_nat bs = foldl (\<lambda>acc c. acc * 256 + of_char c) 0 bs"

fun be_bytes :: "nat \<Rightarrow> nat \<Rightarrow> bytes" where
  "be_bytes 0 n = []"
| "be_bytes (Suc k) n = be_bytes k (n div 256) @ [char_of (n mod 256)]"

text \<open>\<^verbatim>\<open>copy\<close> into a zeroed slot of \<open>n\<close> bytes.\<close>

definition copy_into :: "nat \<Rightarrow> bytes \<Rightarrow> bytes" where
  "copy_into n bs = take n (bs @ replicate n (CHR 0x00))"

definition vault_file :: "bytes \<Rightarrow> bytes \<Rightarrow> bytes \<Rightarrow> bytes" where
  "vault_file slt nonce ciphertext =
     be_bytes 4 magicNumber @ be_bytes 2 vaultVersion
       @ copy_into saltSize slt @ copy_into nonceSize nonce @ ciphertext"

definition save :: "lib \<Rightarrow> Vault \<Rightarrow> world \<Rightarrow> vault_error option \<times> world" where
  "save L v w =
     (if \<not> unlocked v then (Some ErrVaultLocked, w)
      else case json_Marshal L (data v) of
        None \<Rightarrow> (Some ErrSerialize, w)
      | Some plaintext \<Rightarrow>
          (case rand_Read w nonceSize of
             (None, w1) \<Rightarrow> (Some ErrGenerateNonce, w1)
           | (Some nonce, w1) \<Rightarrow>
               (case gcm v of
                  None \<Rightarrow> (Some NilDereference, w1)
                | Some k \<Rightarrow>
                    (let ciphertext = gcm_Seal L k nonce plaintext;
                         file = vault_file (salt v) nonce ciphertext;
                         tmpPath = path v @ ''.tmp''
                     in case os_WriteFile (fs w1) tmpPath file of
                          Inl e \<Rightarrow> (Some (ErrWriteVault e), w1)
                        | Inr fs2 \<Rightarrow>
                            (case os_Rename fs2 tmpPath (path v) of
                               Inl e \<Rightarrow>
                                 (Some (ErrFinalizeVault e), w1\<lparr>fs := os_Remove fs2 tmpPath\<rparr>)
                             | Inr fs3 \<Rightarrow> (None, w1\<lparr>fs := fs3\<rparr>))))))"

definition Create :: "lib \<Rightarrow> string \<Rightarrow> string \<Rightarrow> world \<Rightarrow> (vault_error + Vault) \<times> world" where
  "Create L name password w =
     (case rand_Read w saltSize of
        (None, w1) \<Rightarrow> (Inl ErrGenerateSalt, w1)
      | (Some slt, w1) \<Rightarrow>
          (let k = argon2_IDKey L password slt argonTime argonMemory argonThreads argonKeyLen
           in case aes_NewCipher k of
                None \<Rightarrow> (Inl ErrCreateCipher, w1)
              | Some block \<Rightarrow>
                  (case cipher_NewGCM block of
                     None \<Rightarrow> (Inl ErrCreateGCM, w1)
                   | Some g \<Rightarrow>
                       (let now = time_Now w1;
                            v = \<lparr>path = name, salt = slt, key = k, gcm = Some g,
                                 data = Some \<lparr>vd_Version = 1, vd_Entries = [],
                                              vd_CreatedAt = now, vd_UpdatedAt = now\<rparr>,
                                 unlocked = True\<rparr>
                        in case os_MkdirAll (fs w1) (filepath_Dir name) of
                             Inl e \<Rightarrow> (Inl (ErrCreateDirectory e), w1)
                           | Inr fs2 \<Rightarrow>
                               (case save L v (w1\<lparr>fs := fs2\<rparr>) of
                                  (Some e, w3) \<Rightarrow> (Inl (ErrSaveVault e), w3)
                                | (None, w3) \<Rightarrow> (Inr v, w3))))))"

definition Open :: "string \<Rightarrow> world \<Rightarrow> vault_error + Vault" where
  "Open name w =
     (if os_IsNotExist (os_Stat (fs w) name) then Inl ErrVaultNotFound
      else Inr \<lparr>path = name, salt = [], key = [], gcm = None, data = None,
                unlocked = False\<rparr>)"

text \<open>
  \<^verbatim>\<open>Unlock\<close> only reads the file system; it returns the error and the handle as the
  call leaves it (the salt, the key and the AEAD object are assigned before decryption is
  tried).
\<close>

definition Unlock :: "lib \<Rightarrow> Vault \<Rightarrow> string \<Rightarrow> world \<Rightarrow> vault_error option \<times> Vault" where
  "Unlock L v password w =
     (case os_ReadFile (fs w) (path v) of
        Inl e \<Rightarrow> (Some (ErrReadVault e), v)
      | Inr dat \<Rightarrow>
          if length dat < 6 then (Some ErrInvalidVault, v)
          else if be_nat (take 4 dat) \<noteq> magicNumber then (Some ErrInvalidVault, v)
          else if be_nat (take 2 (drop 4 dat)) \<noteq> vaultVersion
            then (Some (ErrUnsupportedVersion (be_nat (take 2 (drop 4 dat)))), v)
          else if length dat < 6 + saltSize then (Some ErrVaultCorrupted, v)
          else
            (let v1 = v\<lparr>salt := take saltSize (drop 6 dat)\<rparr>;
                 v2 = v1\<lparr>key := argon2_IDKey L password (salt v1)
                                  argonTime argonMemory argonThreads argonKeyLen\<rparr>
             in case aes_NewCipher (key v2) of
                  None \<Rightarrow> (Some ErrCreateCipher, v2)
                | Some block \<Rightarrow>
                    (case cipher_NewGCM block of
                       None \<Rightarrow> (Some ErrCreateGCM, v2\<lparr>gcm := None\<rparr>)
                     | Some g \<Rightarrow>
                         (let v3 = v2\<lparr>gcm := Some g\<rparr> in
                          if length dat < 6 + saltSize + nonceSize
                            then (Some ErrVaultCorrupted, v3)
                          else
                            (let nonce = take nonceSize (drop (6 + saltSize) dat);
                                 ciphertext = drop (6 + saltSize + nonceSize) dat
                             in case gcm_Open L g nonce ciphertext of
                                  None \<Rightarrow> (Some ErrWrongPassword, v3)
                                | Some plaintext \<Rightarrow>
                                    (case json_Unmarshal L plaintext of
                                       (False, d) \<Rightarrow>
                                         (Some ErrVaultCorrupted, v3\<lparr>data := Some d\<rparr>)
                                     | (True, d) \<Rightarrow>
                                         (None, v3\<lparr>data := Some d, unlocked := True\<rparr>)))))))"

definition Lock :: "Vault \<Rightarrow> Vault" where
  "Lock v = v\<lparr>key := [], gcm := None, data := None, unlocked := False\<rparr>"

definition IsUnlocked :: "Vault \<Rightarrow> bool" where
  "IsUnlocked v = unlocked v"

text \<open>
  \<^verbatim>\<open>SetEntry\<close> changes the vault in memory before it saves, so the handle is returned
  changed also when the save fails. The caller's entry receives the same timestamps through
  its pointer.
\<close>

definition SetEntry :: "lib \<Rightarrow> Vault \<Rightarrow> Entry \<Rightarrow> world \<Rightarrow> vault_error option \<times> Vault \<times> world" where
  "SetEntry L v entry w =
     (if \<not> unlocked v then (Some ErrVaultLocked, v, w)
      else
        (let now = time_Now w;
             entry1 = (if IsZero (CreatedAt entry) then entry\<lparr>CreatedAt := now\<rparr> else entry);
             entry2 = entry1\<lparr>UpdatedAt := now\<rparr>
         in case data v of
              None \<Rightarrow> (Some NilDereference, v, w)
            | Some d \<Rightarrow>
                (let v' = v\<lparr>data := Some (d\<lparr>vd_Entries :=
                                               AList.update (ID entry2) entry2 (vd_Entries d),
                                             vd_UpdatedAt := now\<rparr>)\<rparr>
                 in case save L v' w of (r, w') \<Rightarrow> (r, v', w'))))"

definition GetEntry :: "Vault \<Rightarrow> string \<Rightarrow> vault_error + Entry" where
  "GetEntry v i =
     (if \<not> unlocked v then Inl ErrVaultLocked
      else case data v of
        None \<Rightarrow> Inl NilDereference
      | Some d \<Rightarrow>
          (case map_of (vd_Entries d) i of
             None \<Rightarrow> Inl ErrEntryNotFound
           | Some entry \<Rightarrow> Inr entry))"

definition DeleteEntry :: "lib \<Rightarrow> Vault \<Rightarrow> string \<Rightarrow> world \<Rightarrow> vault_error option \<times> Vault \<times> world" where
  "DeleteEntry L v i w =
     (if \<not> unlocked v then (Some ErrVaultLocked, v, w)
      else case data v of
        None \<Rightarrow> (Some NilDereference, v, w)
      | Some d \<Rightarrow>
          (case map_of (vd_Entries d) i of
             None \<Rightarrow> (Some ErrEntryNotFound, v, w)
           | Some entry \<Rightarrow>
               (let v' = v\<lparr>data := Some (d\<lparr>vd_Entries := AList.delete i (vd_Entries d),
                                            vd_UpdatedAt := time_Now w\<rparr>)\<rparr>
                in case save L v' w of (r, w') \<Rightarrow> (r, v', w'))))"

definition ListEntries :: "Vault \<Rightarrow> vault_error + Entry list" where
  "ListEntries v =
     (if \<not> unlocked v then Inl ErrVaultLocked
      else case data v of
        None \<Rightarrow> Inl NilDereference
      | Some d \<Rightarrow>
          Inr (map (\<lambda>(k, entry).
                      \<lparr>ID = ID entry, Type = Type entry, Provider = Provider entry,
                       Data = [], CreatedAt = CreatedAt entry, UpdatedAt = UpdatedAt entry,
                       ExpiresAt = ExpiresAt entry, Metadata = Metadata entry\<rparr>)
                   (vd_Entries d)))"

definition Exists :: "string \<Rightarrow> world \<Rightarrow> bool" where
  "Exists name w = (case os_Stat (fs w) name of Inr n \<Rightarrow> True | Inl e \<Rightarrow> False)"

section \<open>The updater\<close>

definition manifestURL :: string where
  "manifestURL = ''https://github.com/cxt9/claude-go/releases/latest/download/manifest.json''"

record Updater =
  USBRoot :: string
  CurrentVersion :: string
  Platform :: string

datatype io_error =
    OsError os_error
  | HttpError
  | HttpStatus nat
  | ReadError
  | ZipError
  | ChecksumMismatch string string
  | NoRollbackAvailable

datatype update_error =
    FetchManifestFailed
  | ManifestNotFound nat
  | InvalidManifest
  | NoDownloadForPlatform string
  | CreateBackupFailed io_error
  | DownloadFailed io_error
  | ChecksumVerificationFailed io_error
  | ExtractionFailed io_error

definition CheckForUpdate :: "lib \<Rightarrow> Updater \<Rightarrow> world \<Rightarrow> update_error + (Manifest \<times> bool)" where
  "CheckForUpdate L u w =
     (case http w manifestURL of
        None \<Rightarrow> Inl FetchManifestFailed
      | Some resp \<Rightarrow>
          if StatusCode resp \<noteq> 200 then Inl (ManifestNotFound (StatusCode resp))
          else (case json_Decode_Manifest L (concat (Body resp)) (BodyErr resp) of
                  None \<Rightarrow> Inl InvalidManifest
                | Some manifest \<Rightarrow>
                    (let hasUpdate = (compareVersions (Version manifest) (CurrentVersion u) > 0)
                     in Inr (manifest, hasUpdate))))"

text \<open>
  \<^verbatim>\<open>copyDir\<close>: \<^verbatim>\<open>filepath.Walk\<close> calls the function on the source node and then on
  the children of a directory; the function makes the directory or copies the file at the
  destination path. The source tree is read as it is when the walk starts (source and
  destination are sibling directories in every call). Go visits the names of a directory in
  lexical order, the model in the order of the listing; the order decides only which part
  of the copy a failed walk leaves behind.
\<close>

fun copy_walk :: "node \<Rightarrow> string \<Rightarrow> node \<Rightarrow> os_error option \<times> node"
  and copy_children :: "(string \<times> node) list \<Rightarrow> string \<Rightarrow> node \<Rightarrow> os_error option \<times> node"
where
  "copy_walk (File b) destPath root =
     (case os_WriteFile root destPath b of
        Inl e \<Rightarrow> (Some e, root)
      | Inr r \<Rightarrow> (None, r))"
| "copy_walk (Dir es) destPath root =
     (case os_MkdirAll root destPath of
        Inl e \<Rightarrow> (Some e, root)
      | Inr r \<Rightarrow> copy_children es destPath r)"
| "copy_children [] destPath root = (None, root)"
| "copy_children (x # rest) destPath root =
     (case copy_walk (snd x) (filepath_Join [destPath, fst x]) root of
        (Some e, r) \<Rightarrow> (Some e, r)
      | (None, r) \<Rightarrow> copy_children rest destPath r)"

definition copyDir :: "node \<Rightarrow> string \<Rightarrow> string \<Rightarrow> io_error option \<times> node" where
  "copyDir root src dst =
     (case os_Stat root src of
        Inl e \<Rightarrow> (Some (OsError e), root)
      | Inr n \<Rightarrow>
          (case copy_walk n (filepath_Join [dst, ''.'']) root of
             (Some e, r) \<Rightarrow> (Some (OsError e), r)
           | (None, r) \<Rightarrow> (None, r)))"

definition createRollback :: "Updater \<Rightarrow> world \<Rightarrow> io_error option \<times> world" where
  "createRollback u w =
     (let binDir = filepath_Join [USBRoot u, ''bin''];
          rollbackDir = filepath_Join [USBRoot u, ''.rollback''];
          root1 = os_RemoveAll (fs w) rollbackDir
      in case copyDir root1 binDir rollbackDir of (r, root2) \<Rightarrow> (r, w\<lparr>fs := root2\<rparr>))"

definition rollback :: "Updater \<Rightarrow> world \<Rightarrow> io_error option \<times> world" where
  "rollback u w =
     (let rollbackDir = filepath_Join [USBRoot u, ''.rollback''];
          binDir = filepath_Join [USBRoot u, ''bin'']
      in if os_IsNotExist (os_Stat (fs w) rollbackDir) then (Some NoRollbackAvailable, w)
         else (let root1 = os_RemoveAll (fs w) binDir
               in case os_Rename root1 rollbackDir binDir of
                    Inl e \<Rightarrow> (Some (OsError e), w\<lparr>fs := root1\<rparr>)
                  | Inr root2 \<Rightarrow> (None, w\<lparr>fs := root2\<rparr>)))"

definition cleanupRollback :: "Updater \<Rightarrow> world \<Rightarrow> world" where
  "cleanupRollback u w =
     w\<lparr>fs := os_RemoveAll (fs w) (filepath_Join [USBRoot u, ''.rollback''])\<rparr>"

definition clearCache :: "Updater \<Rightarrow> world \<Rightarrow> world" where
  "clearCache u w =
     (let cacheDir = filepath_Join [USBRoot u, ''cache''];
          root1 = os_RemoveAll (fs w) cacheDir
      in w\<lparr>fs := (case os_MkdirAll root1 cacheDir of Inl e \<Rightarrow> root1 | Inr r \<Rightarrow> r)\<rparr>)"

text \<open>
  \<^verbatim>\<open>os.CreateTemp("", pattern)\<close> makes a new empty file in the temporary directory,
  the star of the pattern replaced by a random string (one draw is modelled; Go draws again
  when the name is taken). The download loop appends every chunk it reads to that file and
  drops the error of the write; the progress callback does not touch the modelled state.
\<close>

definition os_CreateTemp :: "world \<Rightarrow> string \<Rightarrow> string \<Rightarrow> os_error + (string \<times> node)" where
  "os_CreateTemp w pre suf =
     (let name = temp_dir w @ ''/'' @ pre @ temp_rand w @ suf in
      case lookup (fs w) (resolve name) of
        Inr n \<Rightarrow> Inl EEXIST
      | Inl e \<Rightarrow>
          (case store (fs w) (resolve name) (File []) of
             Inl e' \<Rightarrow> Inl e'
           | Inr r \<Rightarrow> Inr (name, r)))"

definition file_Write :: "node \<Rightarrow> string \<Rightarrow> bytes \<Rightarrow> node" where
  "file_Write root name b =
     (case lookup root (resolve name) of
        Inr (File old) \<Rightarrow>
          (case store root (resolve name) (File (old @ b)) of
             Inl e \<Rightarrow> root
           | Inr r \<Rightarrow> r)
      | _ \<Rightarrow> root)"

fun download_loop :: "bytes list \<Rightarrow> string \<Rightarrow> node \<Rightarrow> node" where
  "download_loop [] tmpFile root = root"
| "download_loop (buf # rest) tmpFile root =
     download_loop rest tmpFile (if length buf > 0 then file_Write root tmpFile buf else root)"

definition downloadUpdate :: "Updater \<Rightarrow> Download \<Rightarrow> world \<Rightarrow> (io_error + string) \<times> world" where
  "downloadUpdate u download w =
     (case http w (URL download) of
        None \<Rightarrow> (Inl HttpError, w)
      | Some resp \<Rightarrow>
          if StatusCode resp \<noteq> 200 then (Inl (HttpStatus (StatusCode resp)), w)
          else (case os_CreateTemp w ''claude-go-update-'' ''.zip'' of
                  Inl e \<Rightarrow> (Inl (OsError e), w)
                | Inr (tmpFile, root1) \<Rightarrow>
                    (let root2 = download_loop (Body resp) tmpFile root1 in
                     if BodyErr resp then (Inl ReadError, w\<lparr>fs := root2\<rparr>)
                     else (Inr tmpFile, w\<lparr>fs := root2\<rparr>))))"

text \<open>
  \<^verbatim>\<open>hex.EncodeToString\<close> writes two lower-case digits for a byte.
  \<^verbatim>\<open>strings.EqualFold\<close> is modelled on ASCII letters, which is all of it when one
  side is made of hexadecimal digits (no hexadecimal digit folds to a rune outside ASCII).
\<close>

definition hex_digit :: "nat \<Rightarrow> char" where
  "hex_digit n = (''0123456789abcdef'') ! n"

definition hex_EncodeToString :: "bytes \<Rightarrow> string" where
  "hex_EncodeToString bs =
     concat (map (\<lambda>c. [hex_digit (of_char c div 16), hex_digit (of_char c mod 16)]) bs)"

definition ascii_lower :: "char \<Rightarrow> char" where
  "ascii_lower c =
     (if (65::nat) \<le> of_char c \<and> (of_char c :: nat) \<le> 90
      then char_of (of_char c + (32::nat)) else c)"

definition strings_EqualFold :: "string \<Rightarrow> string \<Rightarrow> bool" where
  "strings_EqualFold s t \<longleftrightarrow> map ascii_lower s = map ascii_lower t"

definition verifyChecksum :: "lib \<Rightarrow> world \<Rightarrow> string \<Rightarrow> string \<Rightarrow> io_error option" where
  "verifyChecksum L w filePath expectedHash =
     (case os_ReadFile (fs w) filePath of
        Inl e \<Rightarrow> Some (OsError e)
      | Inr content \<Rightarrow>
          (let actualHash = hex_EncodeToString (sha256_Sum L content) in
           if \<not> strings_EqualFold actualHash expectedHash
             then Some (ChecksumMismatch expectedHash actualHash)
           else None))"

definition extractFile :: "zip_File \<Rightarrow> string \<Rightarrow> node \<Rightarrow> io_error option \<times> node" where
  "extractFile f destPath root =
     (case os_MkdirAll root (filepath_Dir destPath) of
        Inl e \<Rightarrow> (Some (OsError e), root)
      | Inr root1 \<Rightarrow>
          if OpenErr f then (Some ZipError, root1)
          else (case os_WriteFile root1 destPath (Content f) of
                  Inl e \<Rightarrow> (Some (OsError e), root1)
                | Inr root2 \<Rightarrow> (if CopyErr f then Some ZipError else None, root2)))"

fun extract_loop :: "Updater \<Rightarrow> zip_File list \<Rightarrow> node \<Rightarrow> io_error option \<times> node" where
  "extract_loop u [] root = (None, root)"
| "extract_loop u (f # rest) root =
     (if \<not> strings_HasPrefix (Name f) ''bin/'' \<and>
         \<not> strings_HasSuffix (Name f) ''.sh'' \<and>
         \<not> strings_HasSuffix (Name f) ''.bat''
      then extract_loop u rest root
      else
        (let destPath = filepath_Join [USBRoot u, Name f] in
         if IsDir f then
           extract_loop u rest
             (case os_MkdirAll root destPath of Inl e \<Rightarrow> root | Inr r \<Rightarrow> r)
         else
           (case extractFile f destPath root of
              (Some e, r) \<Rightarrow> (Some e, r)
            | (None, r) \<Rightarrow> extract_loop u rest r)))"

definition extractUpdate :: "lib \<Rightarrow> Updater \<Rightarrow> string \<Rightarrow> world \<Rightarrow> io_error option \<times> world" where
  "extractUpdate L u zipPath w =
     (case os_ReadFile (fs w) zipPath of
        Inl e \<Rightarrow> (Some (OsError e), w)
      | Inr b \<Rightarrow>
          (case zip_OpenReader L b of
             None \<Rightarrow> (Some ZipError, w)
           | Some files \<Rightarrow>
               (case extract_loop u files (fs w) of (r, root') \<Rightarrow> (r, w\<lparr>fs := root'\<rparr>))))"


definition readVersionFile :: "lib \<Rightarrow> string \<Rightarrow> world \<Rightarrow> string" where
  "readVersionFile L usbRoot w =
     (case os_ReadFile (fs w) (filepath_Join [usbRoot, ''.version'']) of
        Inl e \<Rightarrow> ''0.0.0''
      | Inr dat \<Rightarrow>
          (case json_Unmarshal_version L dat of
             None \<Rightarrow> ''0.0.0''
           | Some v \<Rightarrow> v))"


definition PerformOfflineUpdate :: "lib \<Rightarrow> Updater \<Rightarrow> string \<Rightarrow> world \<Rightarrow> update_error option \<times> world" where
  "PerformOfflineUpdate L u zipPath w =
     (case createRollback u w of
        (Some e, w1) \<Rightarrow> (Some (CreateBackupFailed e), w1)
      | (None, w1) \<Rightarrow>
          (case extractUpdate L u zipPath w1 of
             (Some e, w2) \<Rightarrow> (Some (ExtractionFailed e), snd (rollback u w2))
           | (None, w2) \<Rightarrow> (None, clearCache u (cleanupRollback u w2))))"

section \<open>Assumptions on the libraries\<close>

text \<open>
  What the theorems below ask of the library parameters: the key derivation returns a key
  of the length asked for; opening what was sealed under the same key and nonce gives the
  plaintext back; opening under another key of the same length is rejected; decoding what
  the encoder produced gives the encoded value back.
\<close>

definition kdf_length :: "lib \<Rightarrow> bool" where
  "kdf_length L \<longleftrightarrow> (\<forall>pw s t m p n. length (argon2_IDKey L pw s t m p n) = n)"

definition aead_correct :: "lib \<Rightarrow> bool" where
  "aead_correct L \<longleftrightarrow> (\<forall>k n p. gcm_Open L k n (gcm_Seal L k n p) = Some p)"

definition aead_authentic :: "lib \<Rightarrow> bool" where
  "aead_authentic L \<longleftrightarrow>
     (\<forall>k k' n p. length k' = length k \<and> k' \<noteq> k \<longrightarrow> gcm_Open L k' n (gcm_Seal L k n p) = None)"

definition json_roundtrip :: "lib \<Rightarrow> bool" where
  "json_roundtrip L \<longleftrightarrow>
     (\<forall>d b. json_Marshal L (Some d) = Some b \<longrightarrow> json_Unmarshal L b = (True, d))"

section \<open>Scenarios and reference definitions\<close>

text \<open>
  A series of \<^verbatim>\<open>SetEntry\<close> calls on one handle, each with the clock reading of the
  environment at the time of the call; the series stops at the first error.
\<close>

fun SetEntries :: "lib \<Rightarrow> Vault \<Rightarrow> (nat \<times> Entry) list \<Rightarrow> world \<Rightarrow> vault_error option \<times> Vault \<times> world" where
  "SetEntries L v [] w = (None, v, w)"
| "SetEntries L v (x # rest) w =
     (case SetEntry L v (snd x) (w\<lparr>clock := fst x\<rparr>) of
        (Some e, v', w') \<Rightarrow> (Some e, v', w')
      | (None, v', w') \<Rightarrow> SetEntries L v' rest w')"

text \<open>The entry as \<^verbatim>\<open>SetEntry\<close> stores it when the clock reads \<open>t\<close>.\<close>

definition stamped :: "nat \<Rightarrow> Entry \<Rightarrow> Entry" where
  "stamped t e =
     e\<lparr>CreatedAt := (if IsZero (CreatedAt e) then t else CreatedAt e), UpdatedAt := t\<rparr>"

text \<open>
  The file at the path of an unlocked handle is the image that \<^verbatim>\<open>save\<close> writes for
  the state of the handle: header, salt, some nonce, and the encoding of the data sealed
  under the key of the handle.
\<close>

definition vault_on_disk :: "lib \<Rightarrow> Vault \<Rightarrow> world \<Rightarrow> bool" where
  "vault_on_disk L v w \<longleftrightarrow>
     unlocked v \<and> length (salt v) = saltSize \<and>
     (\<exists>k nonce pt. gcm v = Some k \<and> json_Marshal L (data v) = Some pt
        \<and> length nonce = nonceSize
        \<and> os_ReadFile (fs w) (path v) = Inr (vault_file (salt v) nonce (gcm_Seal L k nonce pt)))"

text \<open>An entry without the timestamps that the store assigns.\<close>

definition strip_times :: "Entry \<Rightarrow> Entry" where
  "strip_times e = e\<lparr>CreatedAt := 0, UpdatedAt := 0\<rparr>"

text \<open>
  The comparison as the specification words it: a version is three integer components,
  a missing component is zero, and versions are ordered component by component.
\<close>

definition version_triple :: "string \<Rightarrow> int \<times> int \<times> int" where
  "version_triple a =
     (let parts = strings_Split a CHR ''.''
      in (scan_part parts 0, scan_part parts 1, scan_part parts 2))"

fun triple_less :: "int \<times> int \<times> int \<Rightarrow> int \<times> int \<times> int \<Rightarrow> bool" where
  "triple_less (a0, a1, a2) (b0, b1, b2) \<longleftrightarrow>
     a0 < b0 \<or> (a0 = b0 \<and> (a1 < b1 \<or> (a1 = b1 \<and> a2 < b2)))"

section \<open>An instance of the libraries for worked examples\<close>

text \<open>
  A small instance of the library parameters, used to run the model on concrete inputs:
  the key is the first bytes of password and salt, sealing prefixes key and nonce, the
  encoding of the vault data is a table, the manifest decoder takes the body as the
  version and offers one download, and archives are looked up in a table.
\<close>

definition table_Unmarshal :: "(vaultData \<times> bytes) list \<Rightarrow> bytes \<Rightarrow> bool \<times> vaultData" where
  "table_Unmarshal tbl b =
     (case find (\<lambda>x. snd x = b) tbl of
        Some x \<Rightarrow> (True, fst x)
      | None \<Rightarrow> (False, \<lparr>vd_Version = 0, vd_Entries = [], vd_CreatedAt = 0, vd_UpdatedAt = 0\<rparr>))"

definition example_lib :: "(vaultData \<times> bytes) list \<Rightarrow> (bytes \<times> zip_File list) list \<Rightarrow> lib" where
  "example_lib tbl archives =
     \<lparr>argon2_IDKey = (\<lambda>pw s t m p n. take n (pw @ s @ replicate n (CHR 0x00))),
      gcm_Seal = (\<lambda>k n p. k @ n @ p),
      gcm_Open = (\<lambda>k n c. if take (length k + length n) c = k @ n
                           then Some (drop (length k + length n) c) else None),
      json_Marshal = (\<lambda>d. case d of None \<Rightarrow> Some ''null'' | Some x \<Rightarrow> map_of tbl x),
      json_Unmarshal = table_Unmarshal tbl,
      json_Decode_Manifest = (\<lambda>b err. if err then None
         else Some \<lparr>Version = b, ReleaseDate = [], Changelog = [],
                    Downloads = [(''linux-amd64'',
                                  \<lparr>URL = ''https://example.org/u.zip'', SHA256 = ''4A4B'', Size = 3\<rparr>)],
                    MinVersion = []\<rparr>),
      json_Unmarshal_version = (\<lambda>b. Some b),
      sha256_Sum = (\<lambda>b. take 2 b),
      zip_OpenReader = map_of archives,
      time_Format_RFC3339 = (\<lambda>t. ''T'')\<rparr>"

definition example_world :: "node \<Rightarrow> world" where
  "example_world root =
     \<lparr>fs = root, clock = 1, rand_src = (\<lambda>i. CHR 0x07), rand_pos = 0, rand_broken = False,
      http = (\<lambda>url. if url = manifestURL
                     then Some \<lparr>StatusCode = 200, Body = [''1.3.0''], BodyErr = False\<rparr>
                     else if url = ''https://example.org/u.zip''
                     then Some \<lparr>StatusCode = 200, Body = [''JK'', ''L''], BodyErr = False\<rparr>
                     else None),
      temp_dir = ''/tmp'', temp_rand = ''123''\<rparr>"

text \<open>
  Two entries, and a table that encodes the states of a vault that the worked examples go
  through.
\<close>

definition example_oauth :: Entry where
  "example_oauth =
     \<lparr>ID = ''auth/claudeai'', Type = ''oauth'', Provider = ''claudeai'',
      Data = ''{\"access_token\":\"t1\"}'', CreatedAt = 0, UpdatedAt = 0,
      ExpiresAt = None, Metadata = []\<rparr>"

definition example_apikey :: Entry where
  "example_apikey =
     \<lparr>ID = ''auth/console'', Type = ''apikey'', Provider = ''console'',
      Data = ''{\"api_key\":\"k1\"}'', CreatedAt = 0, UpdatedAt = 0,
      ExpiresAt = None, Metadata = []\<rparr>"

definition example_table :: "(vaultData \<times> bytes) list" where
  "example_table =
     [(\<lparr>vd_Version = 1, vd_Entries = [], vd_CreatedAt = 1, vd_UpdatedAt = 1\<rparr>, ''s0''),
      (\<lparr>vd_Version = 1,
        vd_Entries = [(''auth/claudeai'', stamped 5 example_oauth)],
        vd_CreatedAt = 1, vd_UpdatedAt = 5\<rparr>, ''s1''),
      (\<lparr>vd_Version = 1,
        vd_Entries = [(''auth/claudeai'', stamped 5 example_oauth),
                      (''auth/console'', stamped 9 example_apikey)],
        vd_CreatedAt = 1, vd_UpdatedAt = 9\<rparr>, ''s2''),
      (\<lparr>vd_Version = 1,
        vd_Entries = [(''auth/claudeai'', stamped 9 (example_oauth\<lparr>Data := ''{\"access_token\":\"t2\"}''\<rparr>))],
        vd_CreatedAt = 1, vd_UpdatedAt = 9\<rparr>, ''s3''),
      (\<lparr>vd_Version = 1, vd_Entries = [], vd_CreatedAt = 20, vd_UpdatedAt = 20\<rparr>, ''s4'')]"

definition example_root :: node where
  "example_root = Dir [(''usb'', Dir [(''bin'', Dir [(''claude'', File ''v1'')])]), (''tmp'', Dir [])]"

definition example_vault_path :: string where
  "example_vault_path = ''/usb/vault/credentials.vault''"

text \<open>
  A worked run: a vault is created, the OAuth entry is stored when the clock reads 5, and
  an entry with the same identifier and a new payload is stored when the clock reads 9.
\<close>

definition example_created :: "(vault_error + Vault) \<times> world" where
  "example_created =
     Create (example_lib example_table []) example_vault_path ''correct horse''
       (example_world example_root)"

definition example_set1 :: "vault_error option \<times> Vault \<times> world" where
  "example_set1 =
     SetEntry (example_lib example_table []) (projr (fst example_created)) example_oauth
       ((snd example_created)\<lparr>clock := 5\<rparr>)"

definition example_set2 :: "vault_error option \<times> Vault \<times> world" where
  "example_set2 =
     SetEntry (example_lib example_table []) (fst (snd example_set1))
       (example_oauth\<lparr>Data := ''{\"access_token\":\"t2\"}''\<rparr>)
       ((snd (snd example_set1))\<lparr>clock := 9\<rparr>)"

text \<open>
  A second \<^verbatim>\<open>Create\<close> on the path of the vault of the worked run, with another
  password, when the clock reads 20.
\<close>

definition example_recreated :: "(vault_error + Vault) \<times> world" where
  "example_recreated =
     Create (example_lib example_table []) example_vault_path ''another password''
       ((snd (snd example_set1))\<lparr>clock := 20\<rparr>)"

text \<open>
  An updater on the example tree, a download record whose digest does not match the
  archive that the example network serves, and a manifest that offers it.
\<close>

definition example_updater :: Updater where
  "example_updater = \<lparr>USBRoot = ''/usb'', CurrentVersion = ''1.2.9'', Platform = ''linux-amd64''\<rparr>"

definition example_bad_download :: Download where
  "example_bad_download = \<lparr>URL = ''https://example.org/u.zip'', SHA256 = ''FFFF'', Size = 3\<rparr>"

definition example_bad_manifest :: Manifest where
  "example_bad_manifest =
     \<lparr>Version = ''1.3.0'', ReleaseDate = [], Changelog = [],
      Downloads = [(''linux-amd64'', example_bad_download)], MinVersion = []\<rparr>"



text \<open>
  An archive with three entries that the filter of \<^verbatim>\<open>extractUpdate\<close> lets through, a
  tree that holds a vault, and a library instance whose zip reader knows the archive.
\<close>

definition example_hostile_archive :: "zip_File list" where
  "example_hostile_archive =
     [\<lparr>Name = ''sessions/evil.sh'', IsDir = False, Content = ''#!/bin/sh'',
       OpenErr = False, CopyErr = False\<rparr>,
      \<lparr>Name = ''bin/../vault/credentials.vault'', IsDir = False, Content = ''overwritten'',
       OpenErr = False, CopyErr = False\<rparr>,
      \<lparr>Name = ''config/run.bat'', IsDir = False, Content = ''@echo off'',
       OpenErr = False, CopyErr = False\<rparr>]"

definition example_hostile_world :: world where
  "example_hostile_world =
     example_world
       (Dir [(''usb'', Dir [(''bin'', Dir [(''claude'', File ''v1'')]),
                           (''vault'', Dir [(''credentials.vault'', File ''SECRET'')]),
                           (''sessions'', Dir [])]),
             (''tmp'', Dir [(''u.zip'', File ''ZIP'')])])"

definition example_hostile_lib :: lib where
  "example_hostile_lib = example_lib [] [(''ZIP'', example_hostile_archive)]"

section \<open>Version comparison: proofs\<close>

lemma compareVersions_loop_step:
  "compareVersions_loop pa pb i =
     (if i < 3 then
        (if scan_part pb i < scan_part pa i then 1
         else if scan_part pa i < scan_part pb i then - 1
         else compareVersions_loop pa pb (Suc i))
      else 0)"
  by (subst compareVersions_loop.simps) (simp add: Let_def)

lemma compareVersions_loop_unfolded:
  "compareVersions_loop pa pb 0 =
     (if scan_part pb 0 < scan_part pa 0 then 1
      else if scan_part pa 0 < scan_part pb 0 then - 1
      else if scan_part pb (Suc 0) < scan_part pa (Suc 0) then 1
      else if scan_part pa (Suc 0) < scan_part pb (Suc 0) then - 1
      else if scan_part pb (Suc (Suc 0)) < scan_part pa (Suc (Suc 0)) then 1
      else if scan_part pa (Suc (Suc 0)) < scan_part pb (Suc (Suc 0)) then - 1
      else 0)"
proof -
  have s3: "compareVersions_loop pa pb (Suc (Suc (Suc 0))) = 0"
    using compareVersions_loop_step [of pa pb "Suc (Suc (Suc 0))"]
    by (simp add: numeral_3_eq_3)
  show ?thesis
    using compareVersions_loop_step [of pa pb 0]
      compareVersions_loop_step [of pa pb "Suc 0"]
      compareVersions_loop_step [of pa pb "Suc (Suc 0)"] s3
    by (simp add: numeral_3_eq_3)
qed

lemma compareVersions_triple:
  "compareVersions a b =
     (if triple_less (version_triple b) (version_triple a) then 1
      else if triple_less (version_triple a) (version_triple b) then - 1
      else 0)"
  unfolding compareVersions_def version_triple_def Let_def compareVersions_loop_unfolded
  by (auto simp: numeral_2_eq_2)

lemma CheckForUpdate_hasUpdate:
  "CheckForUpdate L u w = Inr (m, h) \<Longrightarrow>
     h = (compareVersions (Version m) (CurrentVersion u) > 0)"
  by (auto simp: CheckForUpdate_def Let_def split: option.splits if_splits)

text \<open>
  Claim C4. The comparison of versions is numeric and component by component: the result
  of \<open>compareVersions\<close> is the order of the two triples of integer components, a missing
  component counting as zero; so \<open>1.10.0\<close> is above \<open>1.9.9\<close> and \<open>1.2\<close> equals
  \<open>1.2.0\<close>. \<open>CheckForUpdate\<close> reports an update exactly when the triple of the manifest
  version is strictly above the triple of the current version.
\<close>

theorem compareVersions_numeric:
  "compareVersions a b =
     (if triple_less (version_triple b) (version_triple a) then 1
      else if triple_less (version_triple a) (version_triple b) then - 1
      else 0)
   \<and> compareVersions ''1.10.0'' ''1.9.9'' = 1
   \<and> compareVersions ''1.3.0'' ''1.2.9'' = 1
   \<and> compareVersions ''1.2'' ''1.2.0'' = 0
   \<and> version_triple ''1.2'' = (1, 2, 0)
   \<and> (CheckForUpdate L u w = Inr (m, h) \<longrightarrow>
        (h \<longleftrightarrow> triple_less (version_triple (CurrentVersion u)) (version_triple (Version m))))"
proof -
  have e1: "compareVersions ''1.10.0'' ''1.9.9'' = 1" by code_simp
  have e2: "compareVersions ''1.3.0'' ''1.2.9'' = 1" by code_simp
  have e3: "compareVersions ''1.2'' ''1.2.0'' = 0" by code_simp
  have e4: "version_triple ''1.2'' = (1, 2, 0)" by code_simp
  have upd: "h \<longleftrightarrow> triple_less (version_triple (CurrentVersion u)) (version_triple (Version m))"
    if "CheckForUpdate L u w = Inr (m, h)"
    using CheckForUpdate_hasUpdate [OF that]
    by (simp add: compareVersions_triple [of "Version m" "CurrentVersion u"])
  show ?thesis
    using compareVersions_triple [of a b] e1 e2 e3 e4 upd by blast
qed

theorem compareVersions_numeric_witness:
  "CheckForUpdate (example_lib [] [])
       \<lparr>USBRoot = ''/usb'', CurrentVersion = ''1.2.9'', Platform = ''linux-amd64''\<rparr>
       (example_world (Dir []))
     = Inr (\<lparr>Version = ''1.3.0'', ReleaseDate = [], Changelog = [],
             Downloads = [(''linux-amd64'',
                           \<lparr>URL = ''https://example.org/u.zip'', SHA256 = ''4A4B'', Size = 3\<rparr>)],
             MinVersion = []\<rparr>, True)
   \<and> triple_less (version_triple ''1.2.9'') (version_triple ''1.3.0'')"
proof -
  let ?u = "\<lparr>USBRoot = ''/usb'', CurrentVersion = ''1.2.9'', Platform = ''linux-amd64''\<rparr>"
  let ?m = "\<lparr>Version = ''1.3.0'', ReleaseDate = [], Changelog = [],
             Downloads = [(''linux-amd64'',
                           \<lparr>URL = ''https://example.org/u.zip'', SHA256 = ''4A4B'', Size = 3\<rparr>)],
             MinVersion = []\<rparr>"
  have cmp: "compareVersions ''1.3.0'' ''1.2.9'' = 1" by code_simp
  have run: "CheckForUpdate (example_lib [] []) ?u (example_world (Dir [])) = Inr (?m, True)"
    by (simp add: CheckForUpdate_def example_lib_def example_world_def cmp)
  from compareVersions_numeric [of "''1''" "''1''" "example_lib [] []" ?u "example_world (Dir [])" ?m True] run
  show ?thesis by simp
qed

text \<open>
  Claim C10. A component that \<open>Sscanf\<close> cannot read as an integer counts as zero. A current
  version none of whose first three components can be read compares as \<open>0.0.0\<close> does, in
  particular \<open>dev\<close>; with such a current version \<open>CheckForUpdate\<close> reports an update
  exactly for the manifest versions above \<open>0.0.0\<close>.
\<close>

theorem unparseable_component_counts_as_zero:
  "(i < length (strings_Split a CHR ''.'') \<and> Sscanf_d (strings_Split a CHR ''.'' ! i) = None
      \<longrightarrow> scan_part (strings_Split a CHR ''.'') i = 0)
   \<and> ((\<forall>j<3. j < length (strings_Split cur CHR ''.'')
               \<longrightarrow> Sscanf_d (strings_Split cur CHR ''.'' ! j) = None)
      \<longrightarrow> compareVersions cur ''0.0.0'' = 0
          \<and> compareVersions v cur = compareVersions v ''0.0.0''
          \<and> compareVersions cur v = compareVersions ''0.0.0'' v)
   \<and> compareVersions ''dev'' ''0.0.0'' = 0
   \<and> (CurrentVersion u = ''dev'' \<and> CheckForUpdate L u w = Inr (m, h)
      \<longrightarrow> (h \<longleftrightarrow> compareVersions (Version m) ''0.0.0'' > 0))"
proof -
  have zero: "version_triple ''0.0.0'' = (0, 0, 0)" by code_simp
  have dev: "version_triple ''dev'' = (0, 0, 0)" by code_simp
  have part: "scan_part ps j = 0" if "j < length ps \<longrightarrow> Sscanf_d (ps ! j) = None" for ps j
    using that by (auto simp: scan_part_def)
  have triple: "version_triple cur = (0, 0, 0)"
    if "\<forall>j<3. j < length (strings_Split cur CHR ''.'')
               \<longrightarrow> Sscanf_d (strings_Split cur CHR ''.'' ! j) = None"
    using that by (simp add: version_triple_def Let_def part)
  have c1: "scan_part (strings_Split a CHR ''.'') i = 0"
    if "i < length (strings_Split a CHR ''.'') \<and> Sscanf_d (strings_Split a CHR ''.'' ! i) = None"
    using that by (simp add: part)
  have c2: "compareVersions cur ''0.0.0'' = 0
          \<and> compareVersions v cur = compareVersions v ''0.0.0''
          \<and> compareVersions cur v = compareVersions ''0.0.0'' v"
    if "\<forall>j<3. j < length (strings_Split cur CHR ''.'')
               \<longrightarrow> Sscanf_d (strings_Split cur CHR ''.'' ! j) = None"
    using triple [OF that] by (simp add: compareVersions_triple zero)
  have c3: "compareVersions ''dev'' ''0.0.0'' = 0"
    by (simp add: compareVersions_triple zero dev)
  have c4: "h \<longleftrightarrow> compareVersions (Version m) ''0.0.0'' > 0"
    if "CurrentVersion u = ''dev'' \<and> CheckForUpdate L u w = Inr (m, h)"
  proof -
    from that have "h = (compareVersions (Version m) ''dev'' > 0)"
      using CheckForUpdate_hasUpdate [of L u w m h] by simp
    then show ?thesis by (simp add: compareVersions_triple zero dev)
  qed
  show ?thesis using c1 c2 c3 c4 by blast
qed

theorem unparseable_component_counts_as_zero_witness:
  "1 < length (strings_Split ''1.x.2'' CHR ''.'')
   \<and> Sscanf_d (strings_Split ''1.x.2'' CHR ''.'' ! 1) = None
   \<and> scan_part (strings_Split ''1.x.2'' CHR ''.'') 1 = 0
   \<and> strings_Split ''dev'' CHR ''.'' = [''dev'']
   \<and> Sscanf_d ''dev'' = None
   \<and> compareVersions ''0.0.1'' ''dev'' = compareVersions ''0.0.1'' ''0.0.0''
   \<and> compareVersions ''0.0.1'' ''dev'' = 1
   \<and> CheckForUpdate (example_lib [] [])
        \<lparr>USBRoot = ''/usb'', CurrentVersion = ''dev'', Platform = ''linux-amd64''\<rparr>
        (example_world (Dir []))
      = Inr (\<lparr>Version = ''1.3.0'', ReleaseDate = [], Changelog = [],
              Downloads = [(''linux-amd64'',
                            \<lparr>URL = ''https://example.org/u.zip'', SHA256 = ''4A4B'', Size = 3\<rparr>)],
              MinVersion = []\<rparr>, True)
   \<and> compareVersions ''1.3.0'' ''0.0.0'' > 0"
proof -
  let ?u = "\<lparr>USBRoot = ''/usb'', CurrentVersion = ''dev'', Platform = ''linux-amd64''\<rparr>"
  let ?m = "\<lparr>Version = ''1.3.0'', ReleaseDate = [], Changelog = [],
             Downloads = [(''linux-amd64'',
                           \<lparr>URL = ''https://example.org/u.zip'', SHA256 = ''4A4B'', Size = 3\<rparr>)],
             MinVersion = []\<rparr>"
  have sp1: "strings_Split ''1.x.2'' CHR ''.'' = [''1'', ''x'', ''2'']" by code_simp
  have sx: "Sscanf_d ''x'' = None" by code_simp
  have sp2: "strings_Split ''dev'' CHR ''.'' = [''dev'']" by code_simp
  have sd: "Sscanf_d ''dev'' = None" by code_simp
  have h1: "1 < length (strings_Split ''1.x.2'' CHR ''.'')
            \<and> Sscanf_d (strings_Split ''1.x.2'' CHR ''.'' ! 1) = None"
    by (simp add: sp1 sx)
  have h2: "\<forall>j<3. j < length (strings_Split ''dev'' CHR ''.'')
               \<longrightarrow> Sscanf_d (strings_Split ''dev'' CHR ''.'' ! j) = None"
    by (simp add: sp2 sd)
  have cmp: "compareVersions ''1.3.0'' ''dev'' = 1" by code_simp
  have cmp0: "compareVersions ''0.0.1'' ''0.0.0'' = 1" by code_simp
  have cmp1: "compareVersions ''1.3.0'' ''0.0.0'' = 1" by code_simp
  have run: "CheckForUpdate (example_lib [] []) ?u (example_world (Dir [])) = Inr (?m, True)"
    by (simp add: CheckForUpdate_def example_lib_def example_world_def cmp)
  from unparseable_component_counts_as_zero
         [of 1 "''1.x.2''" "''dev''" "''0.0.1''" ?u "example_lib [] []" "example_world (Dir [])" ?m True]
       h1 h2 run cmp0 cmp1 sp2 sd
  show ?thesis by simp
qed


section \<open>The file format and the file tree: basic facts\<close>

lemma length_be_bytes: "length (be_bytes k n) = k"
  by (induction k arbitrary: n) auto

lemma be_nat_snoc: "be_nat (bs @ [c]) = be_nat bs * 256 + of_char c"
  by (simp add: be_nat_def)

lemma be_nat_be_bytes: "be_nat (be_bytes k n) = n mod 256 ^ k"
proof (induction k arbitrary: n)
  case 0
  show ?case by (simp add: be_nat_def)
next
  case (Suc k)
  have "be_nat (be_bytes (Suc k) n) = (n div 256 mod 256 ^ k) * 256 + n mod 256"
    by (simp add: be_nat_snoc Suc.IH)
  also have "\<dots> = n mod 256 ^ Suc k"
    by (simp add: mod_mult2_eq mult.commute)
  finally show ?case .
qed

lemma header_magic: "be_nat (be_bytes 4 magicNumber) = magicNumber"
  by (simp add: be_nat_be_bytes magicNumber_def)

lemma header_version: "be_nat (be_bytes 2 vaultVersion) = vaultVersion"
  by (simp add: be_nat_be_bytes vaultVersion_def)

lemma copy_into_exact: "length bs = n \<Longrightarrow> copy_into n bs = bs"
  by (simp add: copy_into_def)

lemma vault_file_parse:
  assumes "length slt = saltSize" "length nonce = nonceSize"
  shows "length (vault_file slt nonce ct) = 6 + saltSize + nonceSize + length ct"
    and "take 4 (vault_file slt nonce ct) = be_bytes 4 magicNumber"
    and "take 2 (drop 4 (vault_file slt nonce ct)) = be_bytes 2 vaultVersion"
    and "take saltSize (drop 6 (vault_file slt nonce ct)) = slt"
    and "take nonceSize (drop (6 + saltSize) (vault_file slt nonce ct)) = nonce"
    and "drop (6 + saltSize + nonceSize) (vault_file slt nonce ct) = ct"
  using assms
  by (simp_all add: vault_file_def length_be_bytes copy_into_exact)

lemma lookup_store: "store r p n = Inr r' \<Longrightarrow> lookup r' p = Inr n"
proof (induction r p n arbitrary: r' rule: store.induct)
  case (1 r n)
  then show ?case by simp
next
  case (2 b c cs n)
  then show ?case by simp
next
  case (3 es c cs n)
  show ?case
  proof (cases "cs = []")
    case True
    with "3.prems" show ?thesis by (auto simp: update_conv')
  next
    case False
    with "3.prems" obtain m m' where m: "map_of es c = Some m" "store m cs n = Inr m'"
      and r': "r' = Dir (AList.update c m' es)"
      by (auto split: option.splits sum.splits)
    from "3.IH" [OF False m] have "lookup m' cs = Inr n" .
    with r' show ?thesis by (simp add: update_conv')
  qed
qed

lemma os_WriteFile_lookup:
  "os_WriteFile root name b = Inr r \<Longrightarrow> lookup r (resolve name) = Inr (File b)"
  by (auto simp: os_WriteFile_def lookup_store split: if_splits)

lemma os_Rename_file:
  assumes "os_Rename root old new = Inr r" "lookup root (resolve old) = Inr (File b)"
  shows "lookup r (resolve new) = Inr (File b)"
proof (cases "resolve old = resolve new")
  case True
  with assms show ?thesis
    by (auto simp: os_Rename_def Let_def split: sum.splits node.splits)
next
  case False
  with assms have "store (remove_all root (resolve old)) (resolve new) (File b) = Inr r"
    by (auto simp: os_Rename_def Let_def split: sum.splits node.splits if_splits)
  then show ?thesis by (rule lookup_store)
qed

lemma rand_Read_Some:
  "rand_Read w n = (Some bs, w') \<Longrightarrow>
     length bs = n \<and> fs w' = fs w \<and> clock w' = clock w"
  by (auto simp: rand_Read_def split: if_splits)

lemma rand_Read_None: "rand_Read w n = (None, w') \<Longrightarrow> w' = w"
  by (auto simp: rand_Read_def split: if_splits)

section \<open>The vault: proofs\<close>

lemma save_success:
  assumes "save L v w = (None, w')"
  shows "\<exists>k nonce pt. gcm v = Some k \<and> json_Marshal L (data v) = Some pt
           \<and> length nonce = nonceSize
           \<and> os_ReadFile (fs w') (path v)
               = Inr (vault_file (salt v) nonce (gcm_Seal L k nonce pt))"
    and "unlocked v" and "clock w' = clock w"
proof -
  from assms show u: "unlocked v"
    by (auto simp: save_def split: if_splits)
  from assms u obtain pt where pt: "json_Marshal L (data v) = Some pt"
    by (auto simp: save_def split: option.splits)
  from assms u pt obtain nonce w1 where rr: "rand_Read w nonceSize = (Some nonce, w1)"
    by (cases "rand_Read w nonceSize") (auto simp: save_def split: option.splits)
  from assms u pt rr obtain k where k: "gcm v = Some k"
    by (auto simp: save_def split: option.splits)
  let ?file = "vault_file (salt v) nonce (gcm_Seal L k nonce pt)"
  from assms u pt rr k obtain root2 where
    wf: "os_WriteFile (fs w1) (path v @ ''.tmp'') ?file = Inr root2"
    by (auto simp: save_def Let_def split: sum.splits)
  from assms u pt rr k wf obtain root3 where
    rn: "os_Rename root2 (path v @ ''.tmp'') (path v) = Inr root3" and w': "w' = w1\<lparr>fs := root3\<rparr>"
    by (auto simp: save_def Let_def split: sum.splits)
  have "lookup root3 (resolve (path v)) = Inr (File ?file)"
    using os_Rename_file [OF rn os_WriteFile_lookup [OF wf]] .
  then have "os_ReadFile (fs w') (path v) = Inr ?file"
    by (simp add: os_ReadFile_def w')
  with k pt rand_Read_Some [OF rr]
  show "\<exists>k nonce pt. gcm v = Some k \<and> json_Marshal L (data v) = Some pt
           \<and> length nonce = nonceSize
           \<and> os_ReadFile (fs w') (path v)
               = Inr (vault_file (salt v) nonce (gcm_Seal L k nonce pt))"
    by blast
  from rand_Read_Some [OF rr] w' show "clock w' = clock w" by simp
qed


lemma Create_success:
  assumes "Create L name password w = (Inr v, w')"
  shows "path v = name" and "unlocked v" and "length (salt v) = saltSize"
    and "gcm v = Some (argon2_IDKey L password (salt v) argonTime argonMemory argonThreads argonKeyLen)"
    and "key v = argon2_IDKey L password (salt v) argonTime argonMemory argonThreads argonKeyLen"
    and "aes_NewCipher (key v) = Some (key v)"
    and "data v = Some \<lparr>vd_Version = 1, vd_Entries = [],
                         vd_CreatedAt = clock w, vd_UpdatedAt = clock w\<rparr>"
    and "\<exists>w0. save L v w0 = (None, w')"
proof -
  from assms obtain slt w1 where rr: "rand_Read w saltSize = (Some slt, w1)"
    by (cases "rand_Read w saltSize") (auto simp: Create_def split: option.splits)
  let ?k = "argon2_IDKey L password slt argonTime argonMemory argonThreads argonKeyLen"
  from assms rr have nc: "aes_NewCipher ?k = Some ?k"
    by (auto simp: Create_def Let_def aes_NewCipher_def split: option.splits if_splits)
  let ?v = "\<lparr>path = name, salt = slt, key = ?k, gcm = Some ?k,
             data = Some \<lparr>vd_Version = 1, vd_Entries = [],
                          vd_CreatedAt = time_Now w1, vd_UpdatedAt = time_Now w1\<rparr>,
             unlocked = True\<rparr>"
  from assms rr nc obtain root2 where
    mk: "os_MkdirAll (fs w1) (filepath_Dir name) = Inr root2"
    by (auto simp: Create_def Let_def cipher_NewGCM_def split: sum.splits)
  from assms rr nc mk have sv: "save L ?v (w1\<lparr>fs := root2\<rparr>) = (None, w')" and v: "v = ?v"
    by (auto simp: Create_def Let_def cipher_NewGCM_def split: option.splits prod.splits)
  from rand_Read_Some [OF rr] have w1: "length slt = saltSize" "clock w1 = clock w"
    by simp_all
  show "path v = name" "unlocked v" by (simp_all add: v)
  show "length (salt v) = saltSize" by (simp add: v w1)
  show "gcm v = Some (argon2_IDKey L password (salt v) argonTime argonMemory argonThreads argonKeyLen)"
    by (simp add: v)
  show "key v = argon2_IDKey L password (salt v) argonTime argonMemory argonThreads argonKeyLen"
    by (simp add: v)
  show "aes_NewCipher (key v) = Some (key v)" using nc by (simp add: v)
  show "data v = Some \<lparr>vd_Version = 1, vd_Entries = [],
                         vd_CreatedAt = clock w, vd_UpdatedAt = clock w\<rparr>"
    by (simp add: v time_Now_def w1)
  from sv show "\<exists>w0. save L v w0 = (None, w')" unfolding v by blast
qed

text \<open>The entry as \<^verbatim>\<open>SetEntry\<close> stores it at clock reading \<open>t\<close>.\<close>

lemma SetEntry_unlocked:
  assumes "unlocked v" "data v = Some d"
  shows "SetEntry L v e w =
     (let e' = e\<lparr>CreatedAt := (if CreatedAt e = 0 then clock w else CreatedAt e),
                  UpdatedAt := clock w\<rparr>;
          v' = v\<lparr>data := Some (d\<lparr>vd_Entries := AList.update (ID e) e' (vd_Entries d),
                                   vd_UpdatedAt := clock w\<rparr>)\<rparr>
      in (fst (save L v' w), v', snd (save L v' w)))"
  using assms
  by (simp add: SetEntry_def Let_def time_Now_def IsZero_def split: prod.splits)

lemma SetEntry_success:
  assumes "SetEntry L v e w = (None, v', w')" "length (salt v) = saltSize"
  shows "vault_on_disk L v' w'"
    and "path v' = path v" and "salt v' = salt v" and "gcm v' = gcm v"
    and "\<exists>d. data v = Some d \<and>
           data v' = Some (d\<lparr>vd_Entries := AList.update (ID e) (stamped (clock w) e) (vd_Entries d),
                              vd_UpdatedAt := clock w\<rparr>)"
proof -
  from assms(1) have u: "unlocked v"
    by (auto simp: SetEntry_def split: if_splits)
  from assms(1) u obtain d where d: "data v = Some d"
    by (auto simp: SetEntry_def Let_def split: option.splits)
  let ?v = "v\<lparr>data := Some (d\<lparr>vd_Entries := AList.update (ID e) (stamped (clock w) e) (vd_Entries d),
                                 vd_UpdatedAt := clock w\<rparr>)\<rparr>"
  from assms(1) have v': "v' = ?v" and sv: "save L ?v w = (None, w')"
    by (auto simp: SetEntry_unlocked [OF u d] Let_def stamped_def IsZero_def
          split: prod.splits intro: prod_eqI)
  from save_success(1) [OF sv] assms(2) u show "vault_on_disk L v' w'"
    by (simp add: vault_on_disk_def v')
  show "path v' = path v" "salt v' = salt v" "gcm v' = gcm v" by (simp_all add: v')
  from d show "\<exists>d. data v = Some d \<and>
           data v' = Some (d\<lparr>vd_Entries := AList.update (ID e) (stamped (clock w) e) (vd_Entries d),
                              vd_UpdatedAt := clock w\<rparr>)"
    by (simp add: v')
qed

lemma SetEntries_success:
  assumes "SetEntries L v tes w = (None, v', w')" "vault_on_disk L v w" "data v = Some d"
  shows "vault_on_disk L v' w' \<and> path v' = path v \<and> salt v' = salt v \<and> gcm v' = gcm v
         \<and> (\<exists>d'. data v' = Some d' \<and>
               vd_Entries d' =
                 fold (\<lambda>x. AList.update (ID (snd x)) (stamped (fst x) (snd x))) tes (vd_Entries d))"
  using assms
proof (induction tes arbitrary: v w d)
  case Nil
  then show ?case by simp
next
  case (Cons x tes)
  from Cons.prems(1) obtain v1 w1 where
    s1: "SetEntry L v (snd x) (w\<lparr>clock := fst x\<rparr>) = (None, v1, w1)"
    and rest: "SetEntries L v1 tes w1 = (None, v', w')"
    by (auto split: prod.splits option.splits)
  from Cons.prems(2) have len: "length (salt v) = saltSize"
    by (simp add: vault_on_disk_def)
  note f = SetEntry_success [OF s1 len]
  from f(5) Cons.prems(3) have d1: "data v1 =
      Some (d\<lparr>vd_Entries := AList.update (ID (snd x)) (stamped (fst x) (snd x)) (vd_Entries d),
               vd_UpdatedAt := fst x\<rparr>)"
    by simp
  from Cons.IH [OF rest f(1) d1] f(2,3,4) show ?case by simp
qed

lemma Unlock_right_password:
  assumes disk: "vault_on_disk L v w"
    and k: "gcm v = Some (argon2_IDKey L password (salt v) argonTime argonMemory argonThreads argonKeyLen)"
    and nc: "aes_NewCipher (argon2_IDKey L password (salt v) argonTime argonMemory argonThreads argonKeyLen) \<noteq> None"
    and d: "data v = Some d"
    and ac: "aead_correct L" and jr: "json_roundtrip L"
    and h: "path h = path v"
  shows "Unlock L h password w =
     (None, h\<lparr>salt := salt v,
               key := argon2_IDKey L password (salt v) argonTime argonMemory argonThreads argonKeyLen,
               gcm := gcm v, data := Some d, unlocked := True\<rparr>)"
proof -
  let ?k = "argon2_IDKey L password (salt v) argonTime argonMemory argonThreads argonKeyLen"
  from disk k d obtain nonce pt where
    len: "length (salt v) = saltSize" "length nonce = nonceSize"
    and pt: "json_Marshal L (Some d) = Some pt"
    and rd: "os_ReadFile (fs w) (path v) = Inr (vault_file (salt v) nonce (gcm_Seal L ?k nonce pt))"
    by (auto simp: vault_on_disk_def)
  note p = vault_file_parse [OF len, of "gcm_Seal L ?k nonce pt"]
  from nc have nc': "aes_NewCipher ?k = Some ?k"
    by (auto simp: aes_NewCipher_def split: if_splits)
  from ac have op: "gcm_Open L ?k nonce (gcm_Seal L ?k nonce pt) = Some pt"
    by (simp add: aead_correct_def)
  from jr pt have um: "json_Unmarshal L pt = (True, d)"
    by (simp add: json_roundtrip_def)
  show ?thesis
    unfolding Unlock_def h rd
    by (simp add: p header_magic header_version Let_def nc' cipher_NewGCM_def op um k)
qed

lemma Unlock_other_key:
  assumes disk: "vault_on_disk L v w"
    and k: "gcm v = Some kP"
    and lenP: "length kP = argonKeyLen"
    and kl: "kdf_length L"
    and diff: "argon2_IDKey L password (salt v) argonTime argonMemory argonThreads argonKeyLen \<noteq> kP"
    and au: "aead_authentic L"
    and h: "path h = path v"
  shows "Unlock L h password w =
     (Some ErrWrongPassword,
      h\<lparr>salt := salt v,
        key := argon2_IDKey L password (salt v) argonTime argonMemory argonThreads argonKeyLen,
        gcm := Some (argon2_IDKey L password (salt v) argonTime argonMemory argonThreads argonKeyLen)\<rparr>)"
proof -
  let ?k = "argon2_IDKey L password (salt v) argonTime argonMemory argonThreads argonKeyLen"
  from disk k obtain nonce pt where
    len: "length (salt v) = saltSize" "length nonce = nonceSize"
    and rd: "os_ReadFile (fs w) (path v) = Inr (vault_file (salt v) nonce (gcm_Seal L kP nonce pt))"
    by (auto simp: vault_on_disk_def)
  note p = vault_file_parse [OF len, of "gcm_Seal L kP nonce pt"]
  from kl have lk: "length ?k = argonKeyLen" by (simp add: kdf_length_def)
  then have nc': "aes_NewCipher ?k = Some ?k"
    by (simp add: aes_NewCipher_def argonKeyLen_def)
  from au lk lenP diff have op: "gcm_Open L ?k nonce (gcm_Seal L kP nonce pt) = None"
    by (simp add: aead_authentic_def)
  show ?thesis
    unfolding Unlock_def h rd
    by (simp add: p header_magic header_version Let_def nc' cipher_NewGCM_def op)
qed

lemma Create_on_disk:
  assumes "Create L name password w = (Inr v, w')"
  shows "vault_on_disk L v w'"
proof -
  from Create_success(8) [OF assms] obtain w0 where "save L v w0 = (None, w')" ..
  from save_success(1) [OF this] Create_success(2,3) [OF assms]
  show ?thesis by (simp add: vault_on_disk_def)
qed

lemma vault_on_disk_Open:
  assumes "vault_on_disk L v w"
  shows "Open (path v) w =
           Inr \<lparr>path = path v, salt = [], key = [], gcm = None, data = None, unlocked = False\<rparr>"
proof -
  from assms obtain b where "os_ReadFile (fs w) (path v) = Inr b"
    by (auto simp: vault_on_disk_def)
  then have "os_Stat (fs w) (path v) \<noteq> Inl ENOENT"
    by (auto simp: os_ReadFile_def os_Stat_def split: sum.splits)
  then show ?thesis by (simp add: Open_def os_IsNotExist_def)
qed

lemma update_fresh: "k \<notin> fst ` set al \<Longrightarrow> AList.update k v al = al @ [(k, v)]"
  by (induction al) auto

lemma fold_update_fresh:
  assumes "distinct (map (\<lambda>x. ID (snd x)) tes)" "\<forall>x\<in>set tes. ID (snd x) \<notin> fst ` set acc"
  shows "fold (\<lambda>x. AList.update (ID (snd x)) (stamped (fst x) (snd x))) tes acc
           = acc @ map (\<lambda>x. (ID (snd x), stamped (fst x) (snd x))) tes"
  using assms
proof (induction tes arbitrary: acc)
  case Nil
  then show ?case by simp
next
  case (Cons x tes)
  let ?acc = "acc @ [(ID (snd x), stamped (fst x) (snd x))]"
  from Cons.prems have step: "AList.update (ID (snd x)) (stamped (fst x) (snd x)) acc = ?acc"
    by (simp add: update_fresh)
  from Cons.prems have fresh: "\<forall>y\<in>set tes. ID (snd y) \<notin> fst ` set ?acc"
    by (auto simp: image_iff)
  from Cons.prems have "distinct (map (\<lambda>x. ID (snd x)) tes)" by simp
  from Cons.IH [OF this fresh] step show ?case by simp
qed

lemma ID_stamped: "ID (stamped t e) = ID e"
  by (simp add: stamped_def)

lemma strip_times_stamped: "strip_times (stamped t e) = strip_times e"
  by (simp add: stamped_def strip_times_def)

lemma map_of_stamped_list:
  assumes "distinct (map (\<lambda>x. ID (snd x)) tes)"
  shows "map_of (map (\<lambda>x. (ID (snd x), stamped (fst x) (snd x))) tes) i = Some y
         \<longleftrightarrow> (\<exists>x\<in>set tes. ID (snd x) = i \<and> y = stamped (fst x) (snd x))"
  using assms
proof (induction tes)
  case Nil
  then show ?case by simp
next
  case (Cons x tes)
  then show ?case by (auto simp: image_iff dest!: map_of_SomeD)
qed

section \<open>The example instance meets the assumptions\<close>

lemma example_kdf_length: "kdf_length (example_lib tbl archives)"
  by (simp add: kdf_length_def example_lib_def) (simp add: min_def)

lemma example_aead_correct: "aead_correct (example_lib tbl archives)"
  by (simp add: aead_correct_def example_lib_def)

lemma example_aead_authentic: "aead_authentic (example_lib tbl archives)"
  unfolding aead_authentic_def
proof (intro allI impI)
  fix k k' n p :: bytes
  assume a: "length k' = length k \<and> k' \<noteq> k"
  have "take (length k' + length n) (k @ n @ p) \<noteq> k' @ n"
  proof
    assume "take (length k' + length n) (k @ n @ p) = k' @ n"
    then have "take (length k') (take (length k' + length n) (k @ n @ p))
                 = take (length k') (k' @ n)"
      by simp
    with a have "k = k'" by simp
    with a show False by simp
  qed
  then show "gcm_Open (example_lib tbl archives) k' n
               (gcm_Seal (example_lib tbl archives) k n p) = None"
    by (simp add: example_lib_def)
qed

lemma table_Unmarshal_roundtrip:
  assumes "distinct (map snd tbl)" "map_of tbl d = Some b"
  shows "table_Unmarshal tbl b = (True, d)"
  using assms
proof (induction tbl)
  case Nil
  then show ?case by simp
next
  case (Cons x tbl)
  show ?case
  proof (cases "snd x = b")
    case True
    with Cons.prems have "fst x = d"
      by (cases x) (auto simp: image_iff dest!: map_of_SomeD split: if_splits)
    with True show ?thesis by (simp add: table_Unmarshal_def)
  next
    case False
    with Cons.prems have "map_of tbl d = Some b" "distinct (map snd tbl)"
      by (cases x; auto split: if_splits)+
    from Cons.IH [OF this(2,1)] False show ?thesis by (simp add: table_Unmarshal_def)
  qed
qed

lemma example_json_roundtrip:
  "distinct (map snd tbl) \<Longrightarrow> json_roundtrip (example_lib tbl archives)"
  by (simp add: json_roundtrip_def example_lib_def table_Unmarshal_roundtrip)

lemma example_table_distinct: "distinct (map snd example_table)"
  by (simp add: example_table_def)


text \<open>
  Claim C2. Round trip: after \<open>Create\<close> with password \<open>P\<close> and one successful
  \<open>SetEntry\<close> for each entry of a set of entries with distinct identifiers, \<open>Open\<close> gives a
  handle on which \<open>Unlock\<close> with \<open>P\<close> succeeds, and the unlocked handle holds exactly those
  entries, up to the timestamps the store assigned: every entry is found under its identifier,
  and everything found is one of them. The libraries are assumed to open what they sealed and
  to decode what they encoded.
\<close>

theorem vault_round_trip:
  assumes "aead_correct L" and "json_roundtrip L"
    and "Create L name P w0 = (Inr v0, w1)"
    and "SetEntries L v0 tes w1 = (None, vn, wn)"
    and "distinct (map (\<lambda>x. ID (snd x)) tes)"
  shows "\<exists>h v'. Open name wn = Inr h \<and> Unlock L h P wn = (None, v') \<and> IsUnlocked v'
           \<and> (\<forall>e\<in>snd ` set tes. \<exists>x. GetEntry v' (ID e) = Inr x \<and> strip_times x = strip_times e)
           \<and> (\<forall>i x. GetEntry v' i = Inr x \<longrightarrow>
                  (\<exists>e\<in>snd ` set tes. ID e = i \<and> strip_times x = strip_times e))
           \<and> (\<exists>es. ListEntries v' = Inr es \<and> length es = length tes)"
proof -
  note c = Create_success [OF assms(3)]
  from SetEntries_success [OF assms(4) Create_on_disk [OF assms(3)] c(7)]
  obtain d where disk: "vault_on_disk L vn wn"
    and same: "path vn = name" "salt vn = salt v0" "gcm vn = gcm v0"
    and d: "data vn = Some d"
    and es: "vd_Entries d = fold (\<lambda>x. AList.update (ID (snd x)) (stamped (fst x) (snd x))) tes []"
    using c(1) by auto
  define stored where "stored = map (\<lambda>x. (ID (snd x), stamped (fst x) (snd x))) tes"
  from fold_update_fresh [OF assms(5), of "[]"] es have es': "vd_Entries d = stored"
    by (simp add: stored_def)
  define k where "k = argon2_IDKey L P (salt vn) argonTime argonMemory argonThreads argonKeyLen"
  define h where "h = \<lparr>path = name, salt = [], key = [], gcm = None, data = None, unlocked = False\<rparr>"
  define v' where "v' = \<lparr>path = name, salt = salt vn, key = k, gcm = gcm vn, data = Some d,
                          unlocked = True\<rparr>"
  have op: "Open name wn = Inr h"
    using vault_on_disk_Open [OF disk] same by (simp add: h_def)
  have gk: "gcm vn = Some k" using c(4) same by (simp add: k_def)
  have nc: "aes_NewCipher k \<noteq> None" using c(5,6) same by (simp add: k_def)
  have ph: "path h = path vn" using same by (simp add: h_def)
  have ul: "Unlock L h P wn = (None, v')"
    using Unlock_right_password [OF disk gk [unfolded k_def] nc [unfolded k_def] d assms(1,2) ph]
    by (simp add: h_def v'_def k_def)
  have g: "GetEntry v' i = (case map_of stored i of None \<Rightarrow> Inl ErrEntryNotFound | Some y \<Rightarrow> Inr y)"
    for i
    by (simp add: GetEntry_def v'_def es')
  have a: "\<forall>e\<in>snd ` set tes. \<exists>x. GetEntry v' (ID e) = Inr x \<and> strip_times x = strip_times e"
  proof
    fix e assume "e \<in> snd ` set tes"
    then obtain t where "(t, e) \<in> set tes" by auto
    then have "map_of stored (ID e) = Some (stamped t e)"
      unfolding stored_def
      using map_of_stamped_list [OF assms(5), of "ID e" "stamped t e"] by force
    then have "GetEntry v' (ID e) = Inr (stamped t e)" by (simp add: g)
    then show "\<exists>x. GetEntry v' (ID e) = Inr x \<and> strip_times x = strip_times e"
      by (simp add: strip_times_stamped)
  qed
  have b: "\<forall>i x. GetEntry v' i = Inr x \<longrightarrow>
                  (\<exists>e\<in>snd ` set tes. ID e = i \<and> strip_times x = strip_times e)"
  proof (intro allI impI)
    fix i x assume "GetEntry v' i = Inr x"
    then have "map_of stored i = Some x"
      by (simp add: g split: option.splits)
    then obtain y where y: "y \<in> set tes" "ID (snd y) = i" "x = stamped (fst y) (snd y)"
      unfolding stored_def
      using map_of_stamped_list [OF assms(5), of i x] by blast
    have "snd y \<in> snd ` set tes" using y(1) by simp
    moreover have "ID (snd y) = i \<and> strip_times x = strip_times (snd y)"
      using y(2,3) by (simp add: strip_times_stamped)
    ultimately show "\<exists>e\<in>snd ` set tes. ID e = i \<and> strip_times x = strip_times e" ..
  qed
  have l: "\<exists>es. ListEntries v' = Inr es \<and> length es = length tes"
    by (simp add: ListEntries_def v'_def es' stored_def)
  have iu: "IsUnlocked v'" by (simp add: IsUnlocked_def v'_def)
  have "Open name wn = Inr h \<and> Unlock L h P wn = (None, v') \<and> IsUnlocked v'
           \<and> (\<forall>e\<in>snd ` set tes. \<exists>x. GetEntry v' (ID e) = Inr x \<and> strip_times x = strip_times e)
           \<and> (\<forall>i x. GetEntry v' i = Inr x \<longrightarrow>
                  (\<exists>e\<in>snd ` set tes. ID e = i \<and> strip_times x = strip_times e))
           \<and> (\<exists>es. ListEntries v' = Inr es \<and> length es = length tes)"
    by (intro conjI) (rule op ul iu a b l)+
  then show ?thesis by (intro exI)
qed

lemmas example_defs =
  example_world_def example_lib_def example_table_def example_root_def example_vault_path_def
  example_oauth_def example_apikey_def stamped_def IsZero_def time_Now_def table_Unmarshal_def

lemmas os_defs =
  os_Stat_def os_IsNotExist_def os_ReadFile_def os_WriteFile_def os_MkdirAll_def os_RemoveAll_def
  os_Remove_def os_Rename_def is_dir_def resolve_def clean_elems_def clean_step_def
  filepath_Dir_def filepath_Clean_def

lemmas vault_defs =
  Create_def save_def SetEntry_def rand_Read_def aes_NewCipher_def cipher_NewGCM_def
  saltSize_def nonceSize_def argonKeyLen_def Let_def

lemma example_scenario:
  "\<exists>v0 w1 vn wn.
      Create (example_lib example_table []) example_vault_path ''correct horse''
        (example_world example_root) = (Inr v0, w1)
      \<and> SetEntries (example_lib example_table []) v0
            [(5, example_oauth), (9, example_apikey)] w1 = (None, vn, wn)"
  by (simp add: vault_defs example_defs os_defs)

theorem vault_round_trip_witness:
  "aead_correct (example_lib example_table [])
   \<and> json_roundtrip (example_lib example_table [])
   \<and> distinct (map (\<lambda>x. ID (snd x)) [(5 :: nat, example_oauth), (9, example_apikey)])
   \<and> (\<exists>v0 w1 vn wn h v'.
        Create (example_lib example_table []) example_vault_path ''correct horse''
          (example_world example_root) = (Inr v0, w1)
        \<and> SetEntries (example_lib example_table []) v0
              [(5, example_oauth), (9, example_apikey)] w1 = (None, vn, wn)
        \<and> Open example_vault_path wn = Inr h
        \<and> Unlock (example_lib example_table []) h ''correct horse'' wn = (None, v')
        \<and> (\<exists>x. GetEntry v' ''auth/console'' = Inr x
                 \<and> strip_times x = strip_times example_apikey))"
proof -
  let ?L = "example_lib example_table []"
  let ?tes = "[(5 :: nat, example_oauth), (9, example_apikey)]"
  have ac: "aead_correct ?L" by (rule example_aead_correct)
  have jr: "json_roundtrip ?L" by (rule example_json_roundtrip [OF example_table_distinct])
  have di: "distinct (map (\<lambda>x. ID (snd x)) ?tes)"
    by (simp add: example_oauth_def example_apikey_def)
  from example_scenario obtain v0 w1 vn wn where
    c: "Create ?L example_vault_path ''correct horse'' (example_world example_root) = (Inr v0, w1)"
    and s: "SetEntries ?L v0 ?tes w1 = (None, vn, wn)"
    by blast
  from vault_round_trip [OF ac jr c s di] obtain h v' where
    o: "Open example_vault_path wn = Inr h"
    and u: "Unlock ?L h ''correct horse'' wn = (None, v')"
    and g: "\<forall>e\<in>snd ` set ?tes. \<exists>x. GetEntry v' (ID e) = Inr x \<and> strip_times x = strip_times e"
    by blast
  from g have "\<exists>x. GetEntry v' (ID example_apikey) = Inr x \<and> strip_times x = strip_times example_apikey"
    by simp
  then have ge: "\<exists>x. GetEntry v' ''auth/console'' = Inr x \<and> strip_times x = strip_times example_apikey"
    by (simp add: example_apikey_def)
  from c s o u ge have "\<exists>v0 w1 vn wn h v'.
        Create ?L example_vault_path ''correct horse'' (example_world example_root) = (Inr v0, w1)
        \<and> SetEntries ?L v0 ?tes w1 = (None, vn, wn)
        \<and> Open example_vault_path wn = Inr h
        \<and> Unlock ?L h ''correct horse'' wn = (None, v')
        \<and> (\<exists>x. GetEntry v' ''auth/console'' = Inr x
                 \<and> strip_times x = strip_times example_apikey)"
    by blast
  with ac jr di show ?thesis by (intro conjI)
qed


text \<open>
  Claim C3, as the code has it. A vault created with password \<open>P\<close> is not unlocked by
  another password: when the key derived from \<open>Q\<close> and the stored salt differs from the key
  derived from \<open>P\<close>, \<open>Unlock\<close> with \<open>Q\<close> on any locked handle for the path of the vault
  (freshly opened, or locked again) fails with the wrong-password error, the handle stays
  locked, and \<open>GetEntry\<close> and \<open>ListEntries\<close> fail with the vault-locked error. The
  libraries are assumed to return keys of the length asked for and to reject a ciphertext
  sealed under another key.
\<close>

theorem wrong_password_rejected_on_locked_handle:
  assumes "kdf_length L" and "aead_authentic L"
    and "Create L name P w0 = (Inr v0, w1)"
    and "SetEntries L v0 tes w1 = (None, vn, wn)"
    and "argon2_IDKey L Q (salt v0) argonTime argonMemory argonThreads argonKeyLen
           \<noteq> argon2_IDKey L P (salt v0) argonTime argonMemory argonThreads argonKeyLen"
    and "path h = name" and "\<not> unlocked h"
  shows "fst (Unlock L h Q wn) = Some ErrWrongPassword
         \<and> \<not> IsUnlocked (snd (Unlock L h Q wn))
         \<and> (\<forall>i. GetEntry (snd (Unlock L h Q wn)) i = Inl ErrVaultLocked)
         \<and> ListEntries (snd (Unlock L h Q wn)) = Inl ErrVaultLocked"
proof -
  note c = Create_success [OF assms(3)]
  from SetEntries_success [OF assms(4) Create_on_disk [OF assms(3)] c(7)]
  have disk: "vault_on_disk L vn wn"
    and same: "path vn = name" "salt vn = salt v0" "gcm vn = gcm v0"
    using c(1) by auto
  define kP where "kP = argon2_IDKey L P (salt v0) argonTime argonMemory argonThreads argonKeyLen"
  define kQ where "kQ = argon2_IDKey L Q (salt vn) argonTime argonMemory argonThreads argonKeyLen"
  have gk: "gcm vn = Some kP" using c(4) same by (simp add: kP_def)
  have lenP: "length kP = argonKeyLen" using assms(1) by (simp add: kdf_length_def kP_def)
  have diff: "argon2_IDKey L Q (salt vn) argonTime argonMemory argonThreads argonKeyLen \<noteq> kP"
    using assms(5) same by (simp add: kP_def)
  have h: "path h = path vn" "unlocked h = False"
    using assms(6,7) same by simp_all
  have ul: "Unlock L h Q wn = (Some ErrWrongPassword, h\<lparr>salt := salt vn, key := kQ, gcm := Some kQ\<rparr>)"
    using Unlock_other_key [OF disk gk lenP assms(1) diff assms(2) h(1)]
    by (simp add: kQ_def)
  show ?thesis
    by (simp add: ul IsUnlocked_def GetEntry_def ListEntries_def h(2))
qed

lemma example_scenario_wrong:
  "\<exists>v0 w1 vn wn.
      Create (example_lib example_table []) example_vault_path ''correct horse''
        (example_world example_root) = (Inr v0, w1)
      \<and> SetEntries (example_lib example_table []) v0
            [(5, example_oauth), (9, example_apikey)] w1 = (None, vn, wn)
      \<and> argon2_IDKey (example_lib example_table []) ''wrong'' (salt v0)
            argonTime argonMemory argonThreads argonKeyLen
          \<noteq> argon2_IDKey (example_lib example_table []) ''correct horse'' (salt v0)
            argonTime argonMemory argonThreads argonKeyLen
      \<and> path (Lock vn) = example_vault_path"
  by (simp add: vault_defs example_defs os_defs Lock_def)

theorem wrong_password_rejected_on_locked_handle_witness:
  "kdf_length (example_lib example_table [])
   \<and> aead_authentic (example_lib example_table [])
   \<and> (\<exists>v0 w1 vn wn.
        Create (example_lib example_table []) example_vault_path ''correct horse''
          (example_world example_root) = (Inr v0, w1)
        \<and> SetEntries (example_lib example_table []) v0
              [(5, example_oauth), (9, example_apikey)] w1 = (None, vn, wn)
        \<and> argon2_IDKey (example_lib example_table []) ''wrong'' (salt v0)
              argonTime argonMemory argonThreads argonKeyLen
            \<noteq> argon2_IDKey (example_lib example_table []) ''correct horse'' (salt v0)
              argonTime argonMemory argonThreads argonKeyLen
        \<and> path (Lock vn) = example_vault_path
        \<and> \<not> unlocked (Lock vn)
        \<and> fst (Unlock (example_lib example_table []) (Lock vn) ''wrong'' wn)
            = Some ErrWrongPassword
        \<and> \<not> IsUnlocked (snd (Unlock (example_lib example_table []) (Lock vn) ''wrong'' wn))
        \<and> GetEntry (snd (Unlock (example_lib example_table []) (Lock vn) ''wrong'' wn))
              ''auth/console''
            = Inl ErrVaultLocked)"
proof -
  let ?L = "example_lib example_table []"
  let ?tes = "[(5 :: nat, example_oauth), (9, example_apikey)]"
  have kl: "kdf_length ?L" by (rule example_kdf_length)
  have au: "aead_authentic ?L" by (rule example_aead_authentic)
  from example_scenario_wrong obtain v0 w1 vn wn where
    c: "Create ?L example_vault_path ''correct horse'' (example_world example_root) = (Inr v0, w1)"
    and s: "SetEntries ?L v0 ?tes w1 = (None, vn, wn)"
    and d: "argon2_IDKey ?L ''wrong'' (salt v0) argonTime argonMemory argonThreads argonKeyLen
              \<noteq> argon2_IDKey ?L ''correct horse'' (salt v0) argonTime argonMemory argonThreads argonKeyLen"
    and p: "path (Lock vn) = example_vault_path"
    by blast
  have l: "\<not> unlocked (Lock vn)" by (simp add: Lock_def)
  from wrong_password_rejected_on_locked_handle [OF kl au c s d p l]
  have r: "fst (Unlock ?L (Lock vn) ''wrong'' wn) = Some ErrWrongPassword"
    "\<not> IsUnlocked (snd (Unlock ?L (Lock vn) ''wrong'' wn))"
    "GetEntry (snd (Unlock ?L (Lock vn) ''wrong'' wn)) ''auth/console'' = Inl ErrVaultLocked"
    by simp_all
  from c s d p l r have "\<exists>v0 w1 vn wn.
        Create ?L example_vault_path ''correct horse'' (example_world example_root) = (Inr v0, w1)
        \<and> SetEntries ?L v0 ?tes w1 = (None, vn, wn)
        \<and> argon2_IDKey ?L ''wrong'' (salt v0) argonTime argonMemory argonThreads argonKeyLen
            \<noteq> argon2_IDKey ?L ''correct horse'' (salt v0) argonTime argonMemory argonThreads argonKeyLen
        \<and> path (Lock vn) = example_vault_path
        \<and> \<not> unlocked (Lock vn)
        \<and> fst (Unlock ?L (Lock vn) ''wrong'' wn) = Some ErrWrongPassword
        \<and> \<not> IsUnlocked (snd (Unlock ?L (Lock vn) ''wrong'' wn))
        \<and> GetEntry (snd (Unlock ?L (Lock vn) ''wrong'' wn)) ''auth/console'' = Inl ErrVaultLocked"
    by blast
  with kl au show ?thesis by (intro conjI)
qed


text \<open>
  Claim C6. \<open>Unlock\<close> checks the header before anything else: when the file is shorter
  than the header, or its magic number is wrong, the result is the invalid-vault error; when
  the magic number is right and the version is not the supported one, the result is the
  unsupported-version error. In both cases the handle comes back as it was (no salt, no key
  and no cipher assigned), and the outcome is the same for every password and for every
  choice of the key derivation, the cipher and the decoder: none of them is consulted.
\<close>

theorem Unlock_checks_header_first:
  assumes "os_ReadFile (fs w) (path v) = Inr dat"
    and "length dat < 6 \<or> be_nat (take 4 dat) \<noteq> magicNumber
           \<or> be_nat (take 2 (drop 4 dat)) \<noteq> vaultVersion"
  shows "Unlock L v password w =
           (Some (if length dat < 6 \<or> be_nat (take 4 dat) \<noteq> magicNumber then ErrInvalidVault
                  else ErrUnsupportedVersion (be_nat (take 2 (drop 4 dat)))), v)
         \<and> Unlock L' v password' w = Unlock L v password w"
  using assms by (auto simp: Unlock_def)

theorem Unlock_checks_header_first_witness:
  "os_ReadFile (Dir [(''v'', File (''CCGO'' @ [CHR 0x00, CHR 0x02] @ ''rest''))]) ''/v''
     = Inr (''CCGO'' @ [CHR 0x00, CHR 0x02] @ ''rest'')
   \<and> be_nat (take 2 (drop 4 (''CCGO'' @ [CHR 0x00, CHR 0x02] @ ''rest''))) \<noteq> vaultVersion
   \<and> Unlock (example_lib [] [])
        \<lparr>path = ''/v'', salt = [], key = [], gcm = None, data = None, unlocked = False\<rparr>
        ''pw'' (example_world (Dir [(''v'', File (''CCGO'' @ [CHR 0x00, CHR 0x02] @ ''rest''))]))
      = (Some (ErrUnsupportedVersion 2),
         \<lparr>path = ''/v'', salt = [], key = [], gcm = None, data = None, unlocked = False\<rparr>)"
proof -
  let ?dat = "''CCGO'' @ [CHR 0x00, CHR 0x02] @ ''rest''"
  let ?w = "example_world (Dir [(''v'', File ?dat)])"
  let ?v = "\<lparr>path = ''/v'', salt = [], key = [], gcm = None, data = None, unlocked = False\<rparr>"
  have rd: "os_ReadFile (fs ?w) (path ?v) = Inr ?dat"
    by (simp add: os_defs example_world_def)
  have magic: "be_nat (take 4 ?dat) = magicNumber"
    by (simp add: be_nat_def magicNumber_def)
  have ver: "be_nat (take 2 (drop 4 ?dat)) = 2"
    by (simp add: be_nat_def)
  then have bad: "length ?dat < 6 \<or> be_nat (take 4 ?dat) \<noteq> magicNumber
           \<or> be_nat (take 2 (drop 4 ?dat)) \<noteq> vaultVersion"
    by (simp add: vaultVersion_def)
  from Unlock_checks_header_first [OF rd bad, of "example_lib [] []" "''pw''"] magic ver rd
  show ?thesis by (simp add: vaultVersion_def example_world_def)
qed


text \<open>
  Claim C9. On an unlocked vault \<open>ListEntries\<close> returns one element for every stored
  entry; the element has the identifier, type, provider, timestamps, expiry and metadata of
  the stored entry, and its \<open>Data\<close> field is empty.
\<close>

theorem ListEntries_omits_Data:
  assumes "unlocked v" and "data v = Some d"
  shows "\<exists>es. ListEntries v = Inr es
           \<and> list_all2 (\<lambda>x e. ID x = ID e \<and> Type x = Type e \<and> Provider x = Provider e
                             \<and> CreatedAt x = CreatedAt e \<and> UpdatedAt x = UpdatedAt e
                             \<and> ExpiresAt x = ExpiresAt e \<and> Metadata x = Metadata e
                             \<and> Data x = [])
                 es (map snd (vd_Entries d))
           \<and> (\<forall>x\<in>set es. Data x = [])"
proof -
  define es where "es = map (\<lambda>(k, entry).
                      \<lparr>ID = ID entry, Type = Type entry, Provider = Provider entry,
                       Data = [], CreatedAt = CreatedAt entry, UpdatedAt = UpdatedAt entry,
                       ExpiresAt = ExpiresAt entry, Metadata = Metadata entry\<rparr>)
                   (vd_Entries d)"
  have l: "ListEntries v = Inr es"
    using assms by (simp add: ListEntries_def es_def)
  have a: "list_all2 (\<lambda>x e. ID x = ID e \<and> Type x = Type e \<and> Provider x = Provider e
                             \<and> CreatedAt x = CreatedAt e \<and> UpdatedAt x = UpdatedAt e
                             \<and> ExpiresAt x = ExpiresAt e \<and> Metadata x = Metadata e
                             \<and> Data x = [])
                 es (map snd (vd_Entries d))"
    unfolding es_def by (induction "vd_Entries d" arbitrary: d) (auto simp: list_all2_map1 list_all2_map2 list.rel_refl_strong split: prod.splits)
  have b: "\<forall>x\<in>set es. Data x = []"
    by (auto simp: es_def)
  from l a b show ?thesis by blast
qed

theorem ListEntries_omits_Data_witness:
  "ListEntries \<lparr>path = ''/v'', salt = [], key = [], gcm = None,
                 data = Some \<lparr>vd_Version = 1,
                              vd_Entries = [(''auth/claudeai'', stamped 5 example_oauth)],
                              vd_CreatedAt = 1, vd_UpdatedAt = 5\<rparr>,
                 unlocked = True\<rparr>
     = Inr [\<lparr>ID = ''auth/claudeai'', Type = ''oauth'', Provider = ''claudeai'', Data = [],
             CreatedAt = 5, UpdatedAt = 5, ExpiresAt = None, Metadata = []\<rparr>]
   \<and> Data (stamped 5 example_oauth) \<noteq> []"
proof -
  let ?d = "\<lparr>vd_Version = 1, vd_Entries = [(''auth/claudeai'', stamped 5 example_oauth)],
             vd_CreatedAt = 1, vd_UpdatedAt = 5\<rparr>"
  let ?v = "\<lparr>path = ''/v'', salt = [], key = [], gcm = None, data = Some ?d, unlocked = True\<rparr>"
  from ListEntries_omits_Data [of ?v ?d] obtain es where
    l: "ListEntries ?v = Inr es" and d: "\<forall>x\<in>set es. Data x = []"
    by auto
  have e: "ListEntries ?v = Inr [\<lparr>ID = ''auth/claudeai'', Type = ''oauth'', Provider = ''claudeai'',
             Data = [], CreatedAt = 5, UpdatedAt = 5, ExpiresAt = None, Metadata = []\<rparr>]"
    by (simp add: ListEntries_def example_defs)
  have "Data (stamped 5 example_oauth) \<noteq> []"
    by (simp add: example_defs)
  with e l d show ?thesis by simp
qed


text \<open>
  Claim C8, as the code has it. \<open>SetEntry\<close> fails with the vault-locked error on a locked
  vault. On an unlocked vault the entry is stored under its identifier with the update
  timestamp set to the current time and with the creation timestamp set to the current time
  exactly when the entry passed in has a zero creation timestamp (a non-zero one is kept),
  whether or not the identifier is already stored; the other entries are untouched; and when
  the call succeeds the vault file is the complete image of the new state: header, salt, a
  nonce and the sealed encoding of the whole data.
\<close>

theorem SetEntry_timestamps_and_rewrite:
  "(\<not> unlocked v \<longrightarrow> SetEntry L v e w = (Some ErrVaultLocked, v, w))
   \<and> (unlocked v \<and> data v = Some d \<and> SetEntry L v e w = (r, v', w') \<longrightarrow>
        (\<exists>d'. data v' = Some d'
           \<and> map_of (vd_Entries d') (ID e)
               = Some (e\<lparr>CreatedAt := (if CreatedAt e = 0 then clock w else CreatedAt e),
                         UpdatedAt := clock w\<rparr>)
           \<and> (\<forall>i. i \<noteq> ID e \<longrightarrow> map_of (vd_Entries d') i = map_of (vd_Entries d) i)
           \<and> vd_UpdatedAt d' = clock w
           \<and> (r = None \<longrightarrow>
                (\<exists>k nonce pt. gcm v' = Some k \<and> json_Marshal L (Some d') = Some pt
                   \<and> length nonce = nonceSize
                   \<and> os_ReadFile (fs w') (path v')
                       = Inr (vault_file (salt v') nonce (gcm_Seal L k nonce pt))))))"
proof (intro conjI impI)
  assume "\<not> unlocked v"
  then show "SetEntry L v e w = (Some ErrVaultLocked, v, w)"
    by (simp add: SetEntry_def)
next
  assume a: "unlocked v \<and> data v = Some d \<and> SetEntry L v e w = (r, v', w')"
  define e' where "e' = e\<lparr>CreatedAt := (if CreatedAt e = 0 then clock w else CreatedAt e),
                          UpdatedAt := clock w\<rparr>"
  define d' where "d' = d\<lparr>vd_Entries := AList.update (ID e) e' (vd_Entries d),
                          vd_UpdatedAt := clock w\<rparr>"
  from a have v': "v' = v\<lparr>data := Some d'\<rparr>" and sv: "save L (v\<lparr>data := Some d'\<rparr>) w = (r, w')"
    using SetEntry_unlocked [of v d L e w]
    by (auto simp: Let_def d'_def e'_def intro: prod_eqI)
  have 1: "data v' = Some d'" by (simp add: v')
  have 2: "map_of (vd_Entries d') (ID e) = Some e'" by (simp add: d'_def update_conv')
  have 3: "\<forall>i. i \<noteq> ID e \<longrightarrow> map_of (vd_Entries d') i = map_of (vd_Entries d) i"
    by (simp add: d'_def update_conv')
  have 4: "vd_UpdatedAt d' = clock w" by (simp add: d'_def)
  have 5: "r = None \<longrightarrow>
                (\<exists>k nonce pt. gcm v' = Some k \<and> json_Marshal L (Some d') = Some pt
                   \<and> length nonce = nonceSize
                   \<and> os_ReadFile (fs w') (path v')
                       = Inr (vault_file (salt v') nonce (gcm_Seal L k nonce pt)))"
  proof
    assume "r = None"
    with sv have "save L v' w = (None, w')" by (simp add: v')
    from save_success(1) [OF this] 1 show "\<exists>k nonce pt. gcm v' = Some k \<and> json_Marshal L (Some d') = Some pt
                   \<and> length nonce = nonceSize
                   \<and> os_ReadFile (fs w') (path v')
                       = Inr (vault_file (salt v') nonce (gcm_Seal L k nonce pt))"
      by simp
  qed
  from 1 2 3 4 5 show "\<exists>d'. data v' = Some d'
           \<and> map_of (vd_Entries d') (ID e)
               = Some (e\<lparr>CreatedAt := (if CreatedAt e = 0 then clock w else CreatedAt e),
                         UpdatedAt := clock w\<rparr>)
           \<and> (\<forall>i. i \<noteq> ID e \<longrightarrow> map_of (vd_Entries d') i = map_of (vd_Entries d) i)
           \<and> vd_UpdatedAt d' = clock w
           \<and> (r = None \<longrightarrow>
                (\<exists>k nonce pt. gcm v' = Some k \<and> json_Marshal L (Some d') = Some pt
                   \<and> length nonce = nonceSize
                   \<and> os_ReadFile (fs w') (path v')
                       = Inr (vault_file (salt v') nonce (gcm_Seal L k nonce pt))))"
    unfolding e'_def by blast
qed

lemma example_created_value:
  "fst example_created =
     Inr \<lparr>path = example_vault_path, salt = replicate 32 (CHR 0x07),
          key = ''correct horse'' @ replicate 19 (CHR 0x07),
          gcm = Some (''correct horse'' @ replicate 19 (CHR 0x07)),
          data = Some \<lparr>vd_Version = 1, vd_Entries = [], vd_CreatedAt = 1, vd_UpdatedAt = 1\<rparr>,
          unlocked = True\<rparr>"
  by (simp add: example_created_def vault_defs example_defs os_defs numeral_eq_Suc)

lemma example_set1_value:
  "fst example_set1 = None"
  "GetEntry (fst (snd example_set1)) ''auth/claudeai'' = Inr (stamped 5 example_oauth)"
  by (simp_all add: example_set1_def example_created_def vault_defs example_defs os_defs GetEntry_def)

lemma example_set2_value:
  "fst example_set2 = None"
  "GetEntry (fst (snd example_set2)) ''auth/claudeai''
     = Inr (stamped 9 (example_oauth\<lparr>Data := ''{\"access_token\":\"t2\"}''\<rparr>))"
  by (simp_all add: example_set2_def example_set1_def example_created_def vault_defs
        example_defs os_defs GetEntry_def)

text \<open>
  The claim C8 as first stated fails on the worked run: both calls succeed, the second one
  updates an identifier that is already stored, and the creation timestamp of the stored
  entry moves from 5 to 9.
\<close>

theorem SetEntry_creation_time_counterexample:
  "fst example_set1 = None
   \<and> map_sum id CreatedAt (GetEntry (fst (snd example_set1)) ''auth/claudeai'') = Inr 5
   \<and> fst example_set2 = None
   \<and> map_sum id CreatedAt (GetEntry (fst (snd example_set2)) ''auth/claudeai'') = Inr 9"
  by (simp add: example_set1_value example_set2_value stamped_def IsZero_def example_oauth_def)

theorem SetEntry_timestamps_and_rewrite_witness:
  "unlocked (projr (fst example_created))
   \<and> data (projr (fst example_created))
       = Some \<lparr>vd_Version = 1, vd_Entries = [], vd_CreatedAt = 1, vd_UpdatedAt = 1\<rparr>
   \<and> fst example_set1 = None
   \<and> (\<exists>d'. data (fst (snd example_set1)) = Some d'
         \<and> map_of (vd_Entries d') ''auth/claudeai''
             = Some (example_oauth\<lparr>CreatedAt := 5, UpdatedAt := 5\<rparr>)
         \<and> (\<exists>k nonce pt. gcm (fst (snd example_set1)) = Some k
               \<and> json_Marshal (example_lib example_table []) (Some d') = Some pt
               \<and> length nonce = nonceSize
               \<and> os_ReadFile (fs (snd (snd example_set1))) (path (fst (snd example_set1)))
                   = Inr (vault_file (salt (fst (snd example_set1))) nonce
                            (gcm_Seal (example_lib example_table []) k nonce pt))))"
proof -
  let ?L = "example_lib example_table []"
  let ?v = "projr (fst example_created)"
  let ?w = "(snd example_created)\<lparr>clock := 5\<rparr>"
  let ?d = "\<lparr>vd_Version = 1, vd_Entries = [], vd_CreatedAt = 1, vd_UpdatedAt = 1\<rparr>"
  have u: "unlocked ?v" and d: "data ?v = Some ?d"
    by (simp_all add: example_created_value)
  have s: "SetEntry ?L ?v example_oauth ?w
             = (fst example_set1, fst (snd example_set1), snd (snd example_set1))"
    by (simp add: example_set1_def)
  have r: "fst example_set1 = None" by (rule example_set1_value)
  have i: "ID example_oauth = ''auth/claudeai''" "CreatedAt example_oauth = 0"
    by (simp_all add: example_oauth_def)
  from SetEntry_timestamps_and_rewrite
         [of ?v ?L example_oauth ?w ?d "fst example_set1" "fst (snd example_set1)"
             "snd (snd example_set1)"]
       u d s r i
  have "\<exists>d'. data (fst (snd example_set1)) = Some d'
         \<and> map_of (vd_Entries d') ''auth/claudeai''
             = Some (example_oauth\<lparr>CreatedAt := 5, UpdatedAt := 5\<rparr>)
         \<and> (\<exists>k nonce pt. gcm (fst (snd example_set1)) = Some k
               \<and> json_Marshal ?L (Some d') = Some pt
               \<and> length nonce = nonceSize
               \<and> os_ReadFile (fs (snd (snd example_set1))) (path (fst (snd example_set1)))
                   = Inr (vault_file (salt (fst (snd example_set1))) nonce
                            (gcm_Seal ?L k nonce pt)))"
    by simp blast
  with u d r show ?thesis by (intro conjI)
qed


lemma example_recreated_value:
  "fst example_recreated =
     Inr \<lparr>path = example_vault_path, salt = replicate 32 (CHR 0x07),
          key = ''another password'' @ replicate 16 (CHR 0x07),
          gcm = Some (''another password'' @ replicate 16 (CHR 0x07)),
          data = Some \<lparr>vd_Version = 1, vd_Entries = [], vd_CreatedAt = 20, vd_UpdatedAt = 20\<rparr>,
          unlocked = True\<rparr>"
  by (simp add: example_recreated_def example_set1_def example_created_def vault_defs
        example_defs os_defs numeral_eq_Suc)

text \<open>
  Claim C7 as first stated fails on the worked run. The path holds a vault with one entry;
  a second \<open>Create\<close> on that path with another password succeeds; afterwards the first
  password is rejected and the entry is not in the vault that the second password opens.
\<close>

theorem Create_overwrites_counterexample:
  "GetEntry (fst (snd example_set1)) ''auth/claudeai'' = Inr (stamped 5 example_oauth)
   \<and> Exists example_vault_path ((snd (snd example_set1))\<lparr>clock := 20\<rparr>)
   \<and> map_sum id path (fst example_recreated) = Inr example_vault_path
   \<and> fst (Unlock (example_lib example_table [])
            \<lparr>path = example_vault_path, salt = [], key = [], gcm = None, data = None,
              unlocked = False\<rparr>
            ''correct horse'' (snd example_recreated)) = Some ErrWrongPassword
   \<and> fst (Unlock (example_lib example_table [])
            \<lparr>path = example_vault_path, salt = [], key = [], gcm = None, data = None,
              unlocked = False\<rparr>
            ''another password'' (snd example_recreated)) = None
   \<and> GetEntry (snd (Unlock (example_lib example_table [])
            \<lparr>path = example_vault_path, salt = [], key = [], gcm = None, data = None,
              unlocked = False\<rparr>
            ''another password'' (snd example_recreated))) ''auth/claudeai''
       = Inl ErrEntryNotFound"
proof -
  let ?L = "example_lib example_table []"
  let ?h = "\<lparr>path = example_vault_path, salt = [], key = [], gcm = None, data = None,
              unlocked = False\<rparr>"
  define v where "v = projr (fst example_recreated)"
  define w' where "w' = snd example_recreated"
  have v: "v = \<lparr>path = example_vault_path, salt = replicate 32 (CHR 0x07),
          key = ''another password'' @ replicate 16 (CHR 0x07),
          gcm = Some (''another password'' @ replicate 16 (CHR 0x07)),
          data = Some \<lparr>vd_Version = 1, vd_Entries = [], vd_CreatedAt = 20, vd_UpdatedAt = 20\<rparr>,
          unlocked = True\<rparr>"
    by (simp add: v_def example_recreated_value)
  have c: "Create ?L example_vault_path ''another password''
             ((snd (snd example_set1))\<lparr>clock := 20\<rparr>) = (Inr v, w')"
    using example_recreated_value
    by (simp add: v_def w'_def example_recreated_def [symmetric] prod_eq_iff)
  have disk: "vault_on_disk ?L v w'" by (rule Create_on_disk [OF c])
  have k2: "argon2_IDKey ?L ''another password'' (salt v) argonTime argonMemory argonThreads argonKeyLen
              = ''another password'' @ replicate 16 (CHR 0x07)"
    by (simp add: v example_lib_def argonKeyLen_def numeral_eq_Suc)
  have k1: "argon2_IDKey ?L ''correct horse'' (salt v) argonTime argonMemory argonThreads argonKeyLen
              = ''correct horse'' @ replicate 19 (CHR 0x07)"
    by (simp add: v example_lib_def argonKeyLen_def numeral_eq_Suc)
  have ph: "path ?h = path v" by (simp add: v)
  have gk: "gcm v = Some (argon2_IDKey ?L ''another password'' (salt v)
                           argonTime argonMemory argonThreads argonKeyLen)"
    unfolding k2 by (simp add: v)
  have nc: "aes_NewCipher (argon2_IDKey ?L ''another password'' (salt v)
                           argonTime argonMemory argonThreads argonKeyLen) \<noteq> None"
    unfolding k2 by (simp add: aes_NewCipher_def)
  have dd: "data v = Some \<lparr>vd_Version = 1, vd_Entries = [], vd_CreatedAt = 20, vd_UpdatedAt = 20\<rparr>"
    by (simp add: v)
  have u2: "fst (Unlock ?L ?h ''another password'' w') = None"
    "data (snd (Unlock ?L ?h ''another password'' w'))
       = Some \<lparr>vd_Version = 1, vd_Entries = [], vd_CreatedAt = 20, vd_UpdatedAt = 20\<rparr>"
    "unlocked (snd (Unlock ?L ?h ''another password'' w'))"
    unfolding Unlock_right_password [OF disk gk nc dd example_aead_correct
                example_json_roundtrip [OF example_table_distinct] ph]
    by simp_all
  have g2: "gcm v = Some (''another password'' @ replicate 16 (CHR 0x07))"
    by (simp add: v)
  have l2: "length (''another password'' @ replicate 16 (CHR 0x07)) = argonKeyLen"
    by (simp add: argonKeyLen_def)
  have df: "argon2_IDKey ?L ''correct horse'' (salt v) argonTime argonMemory argonThreads argonKeyLen
              \<noteq> ''another password'' @ replicate 16 (CHR 0x07)"
    unfolding k1 by simp
  have u1: "fst (Unlock ?L ?h ''correct horse'' w') = Some ErrWrongPassword"
    unfolding Unlock_other_key [OF disk g2 l2 example_kdf_length df example_aead_authentic ph]
    by simp
  have ex: "Exists example_vault_path ((snd (snd example_set1))\<lparr>clock := 20\<rparr>)"
    by (simp add: Exists_def example_set1_def example_created_def vault_defs example_defs os_defs)
  have p: "map_sum id path (fst example_recreated) = Inr example_vault_path"
    by (simp add: example_recreated_value)
  have g: "GetEntry (snd (Unlock ?L ?h ''another password'' w')) ''auth/claudeai''
             = Inl ErrEntryNotFound"
    by (simp add: GetEntry_def u2)
  show ?thesis
    using example_set1_value(2) ex p u1 u2(1) g
    unfolding w'_def by (intro conjI)
qed

lemma vault_file_ciphertext:
  assumes "length slt = saltSize" "length nonce = nonceSize"
    and "length slt' = saltSize" "length nonce' = nonceSize"
    and "vault_file slt nonce ct = vault_file slt' nonce' ct'"
  shows "ct = ct'"
proof -
  have "ct = drop (6 + saltSize + nonceSize) (vault_file slt nonce ct)"
    by (simp only: vault_file_parse(6) [OF assms(1,2)])
  also have "\<dots> = drop (6 + saltSize + nonceSize) (vault_file slt' nonce' ct')"
    by (simp only: assms(5))
  also have "\<dots> = ct'"
    by (simp only: vault_file_parse(6) [OF assms(3,4)])
  finally show ?thesis .
qed

text \<open>
  Claim C7, as the code has it. \<open>Create\<close> fails, and leaves the file tree as it was, when
  the parent directory cannot be created. It makes no check for a file at the path: when
  it succeeds, the file at the path is the image of a new vault with no entries, sealed
  under the key of the new password, whatever was at the path before.
\<close>

theorem Create_fails_without_directory_and_replaces_file:
  "(os_MkdirAll (fs w) (filepath_Dir name) = Inl e \<longrightarrow>
      fst (Create L name password w) \<in> Inl ` {ErrGenerateSalt, ErrCreateCipher, ErrCreateDirectory e}
      \<and> fs (snd (Create L name password w)) = fs w)
   \<and> (Create L name password w = (Inr v, w') \<longrightarrow>
        path v = name
        \<and> data v = Some \<lparr>vd_Version = 1, vd_Entries = [],
                          vd_CreatedAt = clock w, vd_UpdatedAt = clock w\<rparr>
        \<and> key v = argon2_IDKey L password (salt v) argonTime argonMemory argonThreads argonKeyLen
        \<and> (\<exists>nonce pt. json_Marshal L (data v) = Some pt \<and> length nonce = nonceSize
              \<and> os_ReadFile (fs w') name
                  = Inr (vault_file (salt v) nonce (gcm_Seal L (key v) nonce pt))))"
proof (intro conjI impI)
  assume mk: "os_MkdirAll (fs w) (filepath_Dir name) = Inl e"
  show "fst (Create L name password w) \<in> Inl ` {ErrGenerateSalt, ErrCreateCipher, ErrCreateDirectory e}"
  proof (cases "rand_Read w saltSize")
    case (Pair r w1)
    show ?thesis
    proof (cases r)
      case None
      with Pair show ?thesis by (simp add: Create_def)
    next
      case (Some slt)
      with Pair mk rand_Read_Some [of w saltSize slt w1] show ?thesis
        by (simp add: Create_def Let_def cipher_NewGCM_def split: option.splits)
    qed
  qed
  show "fs (snd (Create L name password w)) = fs w"
  proof (cases "rand_Read w saltSize")
    case (Pair r w1)
    show ?thesis
    proof (cases r)
      case None
      with Pair rand_Read_None [of w saltSize w1] show ?thesis by (simp add: Create_def)
    next
      case (Some slt)
      with Pair mk rand_Read_Some [of w saltSize slt w1] show ?thesis
        by (simp add: Create_def Let_def cipher_NewGCM_def split: option.splits)
    qed
  qed
next
  assume c: "Create L name password w = (Inr v, w')"
  note s = Create_success [OF c]
  show "path v = name" by (rule s(1))
  show "data v = Some \<lparr>vd_Version = 1, vd_Entries = [],
                          vd_CreatedAt = clock w, vd_UpdatedAt = clock w\<rparr>"
    by (rule s(7))
  show "key v = argon2_IDKey L password (salt v) argonTime argonMemory argonThreads argonKeyLen"
    by (rule s(5))
  from Create_on_disk [OF c] s(1,4,5)
  show "\<exists>nonce pt. json_Marshal L (data v) = Some pt \<and> length nonce = nonceSize
              \<and> os_ReadFile (fs w') name
                  = Inr (vault_file (salt v) nonce (gcm_Seal L (key v) nonce pt))"
    by (auto simp: vault_on_disk_def)
qed

theorem Create_fails_without_directory_and_replaces_file_witness:
  "os_MkdirAll (Dir [(''usb'', File ''x'')]) (filepath_Dir example_vault_path) = Inl ENOTDIR
   \<and> fst (Create (example_lib example_table []) example_vault_path ''correct horse''
            (example_world (Dir [(''usb'', File ''x'')]))) = Inl (ErrCreateDirectory ENOTDIR)
   \<and> fs (snd (Create (example_lib example_table []) example_vault_path ''correct horse''
            (example_world (Dir [(''usb'', File ''x'')])))) = Dir [(''usb'', File ''x'')]
   \<and> os_ReadFile (fs ((snd (snd example_set1))\<lparr>clock := 20\<rparr>)) example_vault_path
       \<noteq> os_ReadFile (fs (snd example_recreated)) example_vault_path
   \<and> (\<exists>nonce. length nonce = nonceSize
         \<and> os_ReadFile (fs (snd example_recreated)) example_vault_path
             = Inr (vault_file (replicate 32 (CHR 0x07)) nonce
                      (gcm_Seal (example_lib example_table [])
                         (''another password'' @ replicate 16 (CHR 0x07)) nonce ''s4'')))"
proof -
  let ?L = "example_lib example_table []"
  let ?w = "example_world (Dir [(''usb'', File ''x'')])"
  let ?w2 = "(snd (snd example_set1))\<lparr>clock := 20\<rparr>"
  have mk: "os_MkdirAll (fs ?w) (filepath_Dir example_vault_path) = Inl ENOTDIR"
    by (simp add: example_defs os_defs)
  have cr: "fst (Create ?L example_vault_path ''correct horse'' ?w) = Inl (ErrCreateDirectory ENOTDIR)"
    by (simp add: vault_defs example_defs os_defs)
  define v where "v = projr (fst example_recreated)"
  have v: "v = \<lparr>path = example_vault_path, salt = replicate 32 (CHR 0x07),
          key = ''another password'' @ replicate 16 (CHR 0x07),
          gcm = Some (''another password'' @ replicate 16 (CHR 0x07)),
          data = Some \<lparr>vd_Version = 1, vd_Entries = [], vd_CreatedAt = 20, vd_UpdatedAt = 20\<rparr>,
          unlocked = True\<rparr>"
    by (simp add: v_def example_recreated_value)
  have c: "Create ?L example_vault_path ''another password'' ?w2 = (Inr v, snd example_recreated)"
    using example_recreated_value
    by (simp add: v_def example_recreated_def [symmetric] prod_eq_iff)
  have m: "json_Marshal ?L (data v) = Some ''s4''"
    by (simp add: v example_lib_def example_table_def)
  from Create_fails_without_directory_and_replaces_file
         [of ?w example_vault_path ENOTDIR ?L "''correct horse''" v "snd example_recreated"]
       mk
  have a: "fs (snd (Create ?L example_vault_path ''correct horse'' ?w)) = fs ?w"
    by simp
  from Create_fails_without_directory_and_replaces_file
         [of ?w2 example_vault_path ENOTDIR ?L "''another password''" v "snd example_recreated"]
       c m
  have b: "\<exists>nonce. length nonce = nonceSize
         \<and> os_ReadFile (fs (snd example_recreated)) example_vault_path
             = Inr (vault_file (salt v) nonce (gcm_Seal ?L (key v) nonce ''s4''))"
    by auto
  have old: "os_ReadFile (fs ?w2) example_vault_path
               = Inr (vault_file (replicate 32 (CHR 0x07)) (replicate 12 (CHR 0x07))
                        (gcm_Seal ?L (''correct horse'' @ replicate 19 (CHR 0x07))
                           (replicate 12 (CHR 0x07)) ''s1''))"
    by (simp add: example_set1_def example_created_def vault_defs example_defs os_defs
          numeral_eq_Suc)
  have ne: "os_ReadFile (fs ?w2) example_vault_path
              \<noteq> os_ReadFile (fs (snd example_recreated)) example_vault_path"
  proof
    assume eq: "os_ReadFile (fs ?w2) example_vault_path
                  = os_ReadFile (fs (snd example_recreated)) example_vault_path"
    from b obtain nonce where n: "length nonce = nonceSize"
      and r: "os_ReadFile (fs (snd example_recreated)) example_vault_path
             = Inr (vault_file (salt v) nonce (gcm_Seal ?L (key v) nonce ''s4''))"
      by blast
    from eq old r have "vault_file (replicate 32 (CHR 0x07)) (replicate 12 (CHR 0x07))
                        (gcm_Seal ?L (''correct horse'' @ replicate 19 (CHR 0x07))
                           (replicate 12 (CHR 0x07)) ''s1'')
              = vault_file (salt v) nonce (gcm_Seal ?L (key v) nonce ''s4'')"
      by simp
    moreover have "length (replicate 32 (CHR 0x07)) = saltSize"
      "length (replicate 12 (CHR 0x07)) = nonceSize" "length (salt v) = saltSize"
      by (simp_all add: saltSize_def nonceSize_def v)
    ultimately have "gcm_Seal ?L (''correct horse'' @ replicate 19 (CHR 0x07)) (replicate 12 (CHR 0x07)) ''s1''
             = gcm_Seal ?L (key v) nonce ''s4''"
      using n by (rule vault_file_ciphertext [rotated 4])
    then show False by (simp add: example_lib_def v)
  qed
  from b have b': "\<exists>nonce. length nonce = nonceSize
         \<and> os_ReadFile (fs (snd example_recreated)) example_vault_path
             = Inr (vault_file (replicate 32 (CHR 0x07)) nonce
                      (gcm_Seal ?L (''another password'' @ replicate 16 (CHR 0x07)) nonce ''s4''))"
    by (simp add: v)
  from mk cr a ne b' show ?thesis by (simp add: example_world_def)
qed


text \<open>
  Claim C3 as first stated, for every handle, fails on the worked run. The handle that
  stored the OAuth entry is unlocked; \<open>Unlock\<close> on it with another password returns the
  wrong-password error, and afterwards the handle is still unlocked and the entry is still
  read from it.
\<close>

theorem Unlock_wrong_password_on_unlocked_handle_counterexample:
  "fst example_set1 = None
   \<and> IsUnlocked (fst (snd example_set1))
   \<and> fst (Unlock (example_lib example_table []) (fst (snd example_set1)) ''wrong''
            (snd (snd example_set1))) = Some ErrWrongPassword
   \<and> IsUnlocked (snd (Unlock (example_lib example_table []) (fst (snd example_set1)) ''wrong''
                        (snd (snd example_set1))))
   \<and> GetEntry (snd (Unlock (example_lib example_table []) (fst (snd example_set1)) ''wrong''
                       (snd (snd example_set1)))) ''auth/claudeai''
       = Inr (stamped 5 example_oauth)"
proof -
  let ?L = "example_lib example_table []"
  define v0 where "v0 = projr (fst example_created)"
  define v1 where "v1 = fst (snd example_set1)"
  define w1 where "w1 = snd (snd example_set1)"
  have v0: "salt v0 = replicate 32 (CHR 0x07)"
    "gcm v0 = Some (''correct horse'' @ replicate 19 (CHR 0x07))"
    by (simp_all add: v0_def example_created_value)
  have s: "SetEntry ?L v0 example_oauth ((snd example_created)\<lparr>clock := 5\<rparr>) = (None, v1, w1)"
    using example_set1_value(1)
    by (simp add: v0_def v1_def w1_def example_set1_def [symmetric] prod_eq_iff)
  have len: "length (salt v0) = saltSize" by (simp add: v0 saltSize_def)
  note f = SetEntry_success [OF s len]
  have gk: "gcm v1 = Some (''correct horse'' @ replicate 19 (CHR 0x07))"
    using f(4) v0 by simp
  have lenP: "length (''correct horse'' @ replicate 19 (CHR 0x07)) = argonKeyLen"
    by (simp add: argonKeyLen_def)
  have kq: "argon2_IDKey ?L ''wrong'' (salt v1) argonTime argonMemory argonThreads argonKeyLen
              = ''wrong'' @ replicate 27 (CHR 0x07)"
    using f(3) v0 by (simp add: example_lib_def argonKeyLen_def numeral_eq_Suc)
  have diff: "argon2_IDKey ?L ''wrong'' (salt v1) argonTime argonMemory argonThreads argonKeyLen
                \<noteq> ''correct horse'' @ replicate 19 (CHR 0x07)"
    unfolding kq by simp
  have ul: "Unlock ?L v1 ''wrong'' w1 =
              (Some ErrWrongPassword,
               v1\<lparr>salt := salt v1,
                  key := argon2_IDKey ?L ''wrong'' (salt v1) argonTime argonMemory argonThreads argonKeyLen,
                  gcm := Some (argon2_IDKey ?L ''wrong'' (salt v1) argonTime argonMemory argonThreads argonKeyLen)\<rparr>)"
    by (rule Unlock_other_key [OF f(1) gk lenP example_kdf_length diff example_aead_authentic refl])
  have u: "unlocked v1" using f(1) by (simp add: vault_on_disk_def)
  have g: "GetEntry v1 ''auth/claudeai'' = Inr (stamped 5 example_oauth)"
    using example_set1_value(2) by (simp add: v1_def)
  have keep: "GetEntry (v1\<lparr>salt := a, key := b, gcm := c\<rparr>) i = GetEntry v1 i" for a b c i
    by (simp add: GetEntry_def)
  have g': "GetEntry (snd (Unlock ?L v1 ''wrong'' w1)) ''auth/claudeai'' = Inr (stamped 5 example_oauth)"
    unfolding ul snd_conv keep by (rule g)
  have "fst (Unlock ?L v1 ''wrong'' w1) = Some ErrWrongPassword" by (simp add: ul)
  moreover have "IsUnlocked (snd (Unlock ?L v1 ''wrong'' w1))" using u by (simp add: ul IsUnlocked_def)
  moreover have "IsUnlocked v1" using u by (simp add: IsUnlocked_def)
  ultimately show ?thesis
    using example_set1_value(1) g' unfolding v1_def w1_def by (intro conjI)
qed


section \<open>The file tree: what an operation leaves alone\<close>

lemma lookup_store_below: "store r p n = Inr r' \<Longrightarrow> lookup r' (p @ q) = lookup n q"
proof (induction r p n arbitrary: r' rule: store.induct)
  case (1 r n)
  then show ?case by simp
next
  case (2 b c cs n)
  then show ?case by simp
next
  case (3 es c cs n)
  show ?case
  proof (cases "cs = []")
    case True
    with "3.prems" show ?thesis by (auto simp: update_conv')
  next
    case False
    with "3.prems" obtain m m' where m: "map_of es c = Some m" "store m cs n = Inr m'"
      and r': "r' = Dir (AList.update c m' es)"
      by (auto split: option.splits sum.splits)
    from "3.IH" [OF False m] have "lookup m' (cs @ q) = lookup n q" .
    with r' show ?thesis by (simp add: update_conv')
  qed
qed







lemma unrelated_sym: "unrelated p q \<Longrightarrow> unrelated q p"
  by (simp add: unrelated_def)





section \<open>The updater: proofs\<close>





lemmas updater_defs =
  createRollback_def copyDir_def rollback_def downloadUpdate_def os_CreateTemp_def
  file_Write_def verifyChecksum_def strings_EqualFold_def extractUpdate_def extractFile_def
  strings_HasPrefix_def strings_HasSuffix_def example_updater_def example_bad_download_def
  example_bad_manifest_def manifestURL_def







text \<open>
  Claim C1 does not hold of \<open>extractUpdate\<close>. The filter looks at the name of an entry
  only: a prefix \<open>bin/\<close> or a suffix \<open>.sh\<close> or \<open>.bat\<close> lets the entry through, and the
  destination is the joined, cleaned path. On the example archive the extraction succeeds,
  writes a script into the session directory, replaces the vault file through a name that
  starts with \<open>bin/\<close> and climbs out of it, and creates a file in a new configuration
  directory.
\<close>

theorem extractUpdate_writes_into_protected_directories:
  "os_ReadFile (fs example_hostile_world) ''/usb/vault/credentials.vault'' = Inr ''SECRET''
   \<and> os_ReadFile (fs example_hostile_world) ''/usb/sessions/evil.sh'' = Inl ENOENT
   \<and> fst (extractUpdate example_hostile_lib example_updater ''/tmp/u.zip'' example_hostile_world)
       = None
   \<and> os_ReadFile
         (fs (snd (extractUpdate example_hostile_lib example_updater ''/tmp/u.zip''
                     example_hostile_world)))
         ''/usb/sessions/evil.sh'' = Inr ''#!/bin/sh''
   \<and> os_ReadFile
         (fs (snd (extractUpdate example_hostile_lib example_updater ''/tmp/u.zip''
                     example_hostile_world)))
         ''/usb/vault/credentials.vault'' = Inr ''overwritten''
   \<and> os_ReadFile
         (fs (snd (extractUpdate example_hostile_lib example_updater ''/tmp/u.zip''
                     example_hostile_world)))
         ''/usb/config/run.bat'' = Inr ''@echo off''"
  by (simp add: example_hostile_world_def example_hostile_lib_def example_hostile_archive_def
        updater_defs example_defs os_defs Let_def)


end
